theory Spec2Isabelle
  imports Main
begin

text \<open>
  A model of the MQTT subscriber service: the message formatter, the logger package, the
  start of the broker sessions in \<open>main\<close>, the message handler with its output file,
  the loading of the configuration, and the locking of concurrent handlers. Calls into
  the Go standard library, the MQTT client and the operating system are parameters or
  results read from a record that stands for the outside world.
\<close>

section \<open>Strings, bytes and decimal formatting\<close>

text \<open>
  A Go \<open>string\<close> and a Go \<open>[]byte\<close> are both byte sequences; \<open>string(payload)\<close> is the
  identity on the bytes. Both are modelled as \<open>char list\<close> (a \<open>char\<close> is one byte), so
  \<open>length\<close> is Go's \<open>len\<close>. A Go \<open>error\<close> is represented by its text.
\<close>

type_synonym bytes = "char list"
type_synonym error = string

text \<open>
  \<open>fmt.Sprintf("%d", n)\<close> for a non-negative \<open>n\<close> (a length, or a broker index plus
  one): the decimal digits, most significant first, no sign and no padding.
\<close>

definition digit_char :: "nat \<Rightarrow> char" where
  "digit_char d = char_of (48 + d)"

fun fmt_d :: "nat \<Rightarrow> string" where
  "fmt_d n = (if n < 10 then [digit_char n] else fmt_d (n div 10) @ [digit_char (n mod 10)])"

declare fmt_d.simps [simp del]

text \<open>Reading a decimal numeral back (used to state what \<open>fmt_d\<close> prints).\<close>

definition digit_val :: "char \<Rightarrow> nat" where
  "digit_val c = of_char c - 48"

definition decimal_value :: "string \<Rightarrow> nat" where
  "decimal_value ds = foldl (\<lambda>a c. 10 * a + digit_val c) 0 ds"

text \<open>The UTF-8 bytes of the emoji that the source's string literals contain.\<close>

definition emoji_envelope :: string where
  "emoji_envelope = [CHR 0xF0, CHR 0x9F, CHR 0x93, CHR 0xA9]"

definition emoji_cross :: string where
  "emoji_cross = [CHR 0xE2, CHR 0x9D, CHR 0x8C]"

definition emoji_check :: string where
  "emoji_check = [CHR 0xE2, CHR 0x9C, CHR 0x93]"

definition emoji_memo :: string where
  "emoji_memo = [CHR 0xF0, CHR 0x9F, CHR 0x93, CHR 0x9D]"

definition emoji_plug :: string where
  "emoji_plug = [CHR 0xF0, CHR 0x9F, CHR 0x94, CHR 0x8C]"

definition emoji_rocket :: string where
  "emoji_rocket = [CHR 0xF0, CHR 0x9F, CHR 0x9A, CHR 0x80]"

definition emoji_chart :: string where
  "emoji_chart = [CHR 0xF0, CHR 0x9F, CHR 0x93, CHR 0x8A]"

definition emoji_glass :: string where
  "emoji_glass = [CHR 0xF0, CHR 0x9F, CHR 0x94, CHR 0x8D]"

definition emoji_ear :: string where
  "emoji_ear = [CHR 0xF0, CHR 0x9F, CHR 0x91, CHR 0x82]"

definition box_dash :: string where
  "box_dash = [CHR 0xE2, CHR 0x94, CHR 0x80]"

text \<open>\<open>strings.Repeat(s, n)\<close>.\<close>

definition Repeat :: "string \<Rightarrow> nat \<Rightarrow> string" where
  "Repeat s n = concat (replicate n s)"

section \<open>The message formatter (cmd/server/main.go, formatMessage)\<close>

text \<open>
  \<open>mqtt.Message\<close> is an interface of the transport library; the formatter reads its
  \<open>Topic()\<close> and \<open>Payload()\<close> only.
\<close>

record message =
  Topic :: string
  Payload :: bytes

text \<open>
  \<open>encoding/json\<close> belongs to the Go standard library, not to this repository. The two
  functions that the formatter calls are parameters of the model: \<open>json.Unmarshal\<close> into
  an \<open>interface{}\<close> (the decoded value, or an error) and \<open>json.MarshalIndent\<close> (value,
  prefix, indent). \<open>'j\<close> is the type of decoded values.
\<close>

record 'j json_lib =
  json_Unmarshal :: "bytes \<Rightarrow> error + 'j"
  json_MarshalIndent :: "'j \<Rightarrow> string \<Rightarrow> string \<Rightarrow> error + bytes"

definition formatMessage :: "'j json_lib \<Rightarrow> message \<Rightarrow> bool \<Rightarrow> string" where
  "formatMessage lib msg detailed =
     (if detailed then
        (let payload = Payload msg;
             prettyPayload =
               (case json_Unmarshal lib payload of
                  Inr jsonObj \<Rightarrow>
                    (case json_MarshalIndent lib jsonObj '''' ''  '' of
                       Inr prettyJSON \<Rightarrow> prettyJSON
                     | Inl err \<Rightarrow> payload)
                | Inl err \<Rightarrow> payload)
         in emoji_envelope @ '' '' @ Topic msg @ '' ('' @ fmt_d (length (Payload msg))
              @ '' bytes)'' @ [CHR 0x0A] @ prettyPayload)
      else emoji_envelope @ '' '' @ Topic msg @ '' ('' @ fmt_d (length (Payload msg))
              @ '' bytes)'')"

text \<open>
  The contract of \<open>encoding/json\<close> that the round trip of a pretty-printed payload rests
  on: a value that \<open>Unmarshal\<close> produced is marshalled without error (with empty prefix
  and two-space indent), and the text decodes to the same value again.
\<close>

definition json_roundtrip :: "'j json_lib \<Rightarrow> bool" where
  "json_roundtrip lib \<longleftrightarrow>
     (\<forall>p v. json_Unmarshal lib p = Inr v \<longrightarrow>
        (\<exists>s. json_MarshalIndent lib v '''' ''  '' = Inr s \<and> json_Unmarshal lib s = Inr v))"

subsection \<open>A small instance of the JSON interface\<close>

text \<open>
  An instance of \<open>json_lib\<close> to evaluate the definitions on concrete inputs. Its
  documents are one JSON literal (\<open>null\<close>, \<open>true\<close>, \<open>false\<close>), or an array that is
  empty or holds one literal, with optional JSON white space around every token; every
  other input is rejected. \<open>MarshalIndent\<close> prints a literal as it is, the empty array
  as \<open>[]\<close>, and an array with an element as an opening bracket, a line with prefix,
  indent and the element, and a line with prefix and the closing bracket. The instance
  satisfies \<open>json_roundtrip\<close>.
\<close>

datatype lit = LNull | LBool bool

datatype small_value = JLit lit | JArray "lit option"

definition is_json_ws :: "char \<Rightarrow> bool" where
  "is_json_ws c \<longleftrightarrow> c = CHR '' '' \<or> c = CHR 0x09 \<or> c = CHR 0x0A \<or> c = CHR 0x0D"

definition strip_json_ws :: "bytes \<Rightarrow> bytes" where
  "strip_json_ws p = rev (dropWhile is_json_ws (rev (dropWhile is_json_ws p)))"

definition parse_lit :: "bytes \<Rightarrow> lit option" where
  "parse_lit s =
     (if s = ''null'' then Some LNull
      else if s = ''true'' then Some (LBool True)
      else if s = ''false'' then Some (LBool False)
      else None)"

fun render_lit :: "lit \<Rightarrow> bytes" where
  "render_lit LNull = ''null''"
| "render_lit (LBool True) = ''true''"
| "render_lit (LBool False) = ''false''"

definition lit_Unmarshal :: "bytes \<Rightarrow> error + small_value" where
  "lit_Unmarshal p =
     (let s = strip_json_ws p
      in case parse_lit s of
           Some l \<Rightarrow> Inr (JLit l)
         | None \<Rightarrow>
             if 2 \<le> length s \<and> take 1 s = ''['' \<and> drop (length s - 1) s = '']'' then
               (let inner = strip_json_ws (take (length s - 2) (drop 1 s))
                in if inner = '''' then Inr (JArray None)
                   else (case parse_lit inner of
                           Some l \<Rightarrow> Inr (JArray (Some l))
                         | None \<Rightarrow> Inl ''invalid character''))
             else Inl ''invalid character'')"

fun lit_MarshalIndent :: "small_value \<Rightarrow> string \<Rightarrow> string \<Rightarrow> error + bytes" where
  "lit_MarshalIndent (JLit l) prefix indent = Inr (render_lit l)"
| "lit_MarshalIndent (JArray None) prefix indent = Inr ''[]''"
| "lit_MarshalIndent (JArray (Some l)) prefix indent =
     Inr (''['' @ [CHR 0x0A] @ prefix @ indent @ render_lit l @ [CHR 0x0A] @ prefix @ '']'')"

definition lit_json :: "small_value json_lib" where
  "lit_json = \<lparr>json_Unmarshal = lit_Unmarshal, json_MarshalIndent = lit_MarshalIndent\<rparr>"

section \<open>Standard-library functions taken as parameters\<close>

text \<open>
  \<open>strings.TrimSpace\<close> and \<open>filepath.IsAbs\<close>, \<open>filepath.Dir\<close>, \<open>filepath.Join\<close> belong to
  the Go standard library. The program only passes strings through them and compares the
  results, so they are parameters of the model.
\<close>

record stdlib =
  TrimSpace :: "string \<Rightarrow> string"
  IsAbs :: "string \<Rightarrow> bool"
  Dir :: "string \<Rightarrow> string"
  Join :: "string \<Rightarrow> string \<Rightarrow> string"

subsection \<open>A small instance of the string and path functions\<close>

text \<open>
  For evaluation on concrete inputs: white space is the six ASCII white-space bytes, a
  path is absolute when it starts with a slash, \<open>Dir\<close> cuts at the last slash (\<open>.\<close> when
  there is none) and \<open>Join\<close> puts one slash between its arguments.
\<close>

definition is_ascii_space :: "char \<Rightarrow> bool" where
  "is_ascii_space c \<longleftrightarrow> c \<in> set [CHR '' '', CHR 0x09, CHR 0x0A, CHR 0x0B, CHR 0x0C, CHR 0x0D]"

definition ascii_TrimSpace :: "string \<Rightarrow> string" where
  "ascii_TrimSpace s = rev (dropWhile is_ascii_space (rev (dropWhile is_ascii_space s)))"

definition slash_IsAbs :: "string \<Rightarrow> bool" where
  "slash_IsAbs p \<longleftrightarrow> take 1 p = ''/''"

definition slash_Dir :: "string \<Rightarrow> string" where
  "slash_Dir p =
     (let d = rev (drop 1 (dropWhile (\<lambda>c. c \<noteq> CHR ''/'') (rev p)))
      in if CHR ''/'' \<notin> set p then ''.'' else if d = [] then ''/'' else d)"

definition slash_Join :: "string \<Rightarrow> string \<Rightarrow> string" where
  "slash_Join a b = a @ ''/'' @ b"

definition simple_lib :: stdlib where
  "simple_lib = \<lparr>TrimSpace = ascii_TrimSpace, IsAbs = slash_IsAbs, Dir = slash_Dir,
                  Join = slash_Join\<rparr>"

section \<open>The logger package (pkg/logger/logger.go)\<close>

text \<open>
  The package keeps two globals that the program reads: \<open>logger\<close> (nil until
  \<open>InitLoggerWithFile\<close> assigns it) and \<open>detailed\<close>. They are passed explicitly. What the
  program does to the outside world is recorded as a list of events in program order: the
  entries handed to the zap logger (level, message, fields) and the calls into the
  operating system and the MQTT client.
\<close>

type_synonym os_file = nat

datatype field = zap_String string string | zap_Int string nat | zap_Error error

datatype level = InfoLevel | ErrorLevel | FatalLevel

datatype event =
    Log level string "field list"
  | os_MkdirAll string
  | os_OpenFile string
  | file_Close os_file
  | client_Connect nat
  | client_Subscribe nat string
  | os_Exit nat

record logger_globals =
  logger :: bool
  detailed :: bool

definition logger_unset :: logger_globals where
  "logger_unset = \<lparr>logger = False, detailed = False\<rparr>"

text \<open>
  \<open>InitLoggerWithFile("")\<close>: with the empty path no file core is added, and
  \<open>zap.New\<close> returns a logger, so \<open>logger\<close> is non-nil afterwards.
\<close>

definition InitLogger :: "logger_globals \<Rightarrow> logger_globals" where
  "InitLogger g = g\<lparr>logger := True\<rparr>"

definition SetDetailed :: "bool \<Rightarrow> logger_globals \<Rightarrow> logger_globals" where
  "SetDetailed d g = g\<lparr>detailed := d\<rparr>"

definition IsDetailed :: "logger_globals \<Rightarrow> bool" where
  "IsDetailed g = detailed g"

definition Info :: "logger_globals \<Rightarrow> string \<Rightarrow> field list \<Rightarrow> event list" where
  "Info g msg fs = (if logger g then [Log InfoLevel msg fs] else [])"

definition Error :: "logger_globals \<Rightarrow> string \<Rightarrow> field list \<Rightarrow> event list" where
  "Error g msg fs = (if logger g then [Log ErrorLevel msg fs] else [])"

text \<open>
  zap's \<open>Logger.Fatal\<close> writes the entry and then calls \<open>os.Exit(1)\<close>. The second
  component says whether the process has exited.
\<close>

definition Fatal :: "logger_globals \<Rightarrow> string \<Rightarrow> field list \<Rightarrow> event list \<times> bool" where
  "Fatal g msg fs =
     (if logger g then ([Log FatalLevel msg fs, os_Exit 1], True) else ([], False))"

section \<open>Configuration records (config/config.go)\<close>

record BrokerConfig =
  Broker :: string
  Port :: string
  Username :: string
  Password :: string
  Topics :: "string list"
  OutputFile :: string

text \<open>
  \<open>Config\<close>: the broker list and the detailed flag. The legacy single-broker fields of
  the struct (tagged \<open>json:"-"\<close>) are never assigned by the multi-broker configuration
  code and never read by the multi-broker \<open>main\<close>; they keep their zero values and are
  left out.
\<close>

record Config =
  Brokers :: "BrokerConfig list"
  Detailed :: bool

section \<open>Starting the broker sessions (cmd/server/main.go, main)\<close>

text \<open>
  A paho token after the call: what \<open>Wait()\<close> returns and what \<open>Error()\<close> returns. The
  program's test is \<open>token.Wait() && token.Error() != nil\<close>.
\<close>

record token =
  token_Wait :: bool
  token_Error :: "error option"

definition token_failed :: "token \<Rightarrow> error option" where
  "token_failed tok = (if token_Wait tok then token_Error tok else None)"

text \<open>The client options that \<open>main\<close> sets (the three handlers are fixed by the index).\<close>

record ClientOptions =
  Servers :: "string list"
  ClientID :: string
  opt_Username :: string
  opt_Password :: string
  AutoReconnect :: bool
  CleanSession :: bool

text \<open>
  The outside world during start-up. Every call that \<open>main\<close> makes for the broker with
  index \<open>i\<close> gets its result from here; the index (and, for \<open>Subscribe\<close>, the position
  of the topic) identifies the call, so two calls with equal arguments may have
  different results.
\<close>

record world =
  Now_Unix :: "nat \<Rightarrow> int"
  MkdirAll :: "nat \<Rightarrow> string \<Rightarrow> error option"
  OpenFile :: "nat \<Rightarrow> string \<Rightarrow> error + os_file"
  Connect :: "nat \<Rightarrow> ClientOptions \<Rightarrow> token"
  Subscribe :: "nat \<Rightarrow> nat \<Rightarrow> string \<Rightarrow> token"

record BrokerConnection =
  Config :: BrokerConfig
  Client :: ClientOptions
  conn_OutputFile :: "os_file option"

text \<open>\<open>%d\<close> of a signed integer, and \<open>%v\<close> of a bool.\<close>

definition fmt_int :: "int \<Rightarrow> string" where
  "fmt_int k = (if k < 0 then ''-'' @ fmt_d (nat (- k)) else fmt_d (nat k))"

definition fmt_v :: "bool \<Rightarrow> string" where
  "fmt_v b = (if b then ''true'' else ''false'')"

text \<open>
  Lines 100 to 123: the path of the output file, the directory, the file. The result is
  the events and the value of \<open>broker.OutputFile\<close> (\<open>None\<close> for nil).
\<close>

definition output_path :: "stdlib \<Rightarrow> string \<Rightarrow> string" where
  "output_path lib outputPath =
     (if \<not> IsAbs lib outputPath \<and> Dir lib outputPath = ''.''
      then Join lib ''logs'' outputPath else outputPath)"

definition open_output_file ::
  "logger_globals \<Rightarrow> stdlib \<Rightarrow> world \<Rightarrow> nat \<Rightarrow> BrokerConfig \<Rightarrow> event list \<times> os_file option" where
  "open_output_file g lib w i brokerCfg =
     (if OutputFile brokerCfg \<noteq> '''' then
        (let outputPath = output_path lib (OutputFile brokerCfg);
             dir = Dir lib outputPath;
             mk = (if dir \<noteq> ''.'' \<and> dir \<noteq> '''' then
                     os_MkdirAll dir #
                     (case MkdirAll w i dir of
                        Some err \<Rightarrow>
                          Error g (emoji_cross @ '' Failed to create log directory'')
                            [zap_String ''dir'' dir, zap_Error err]
                      | None \<Rightarrow> [])
                   else [])
         in case OpenFile w i outputPath of
              Inl err \<Rightarrow>
                (mk @ [os_OpenFile outputPath]
                  @ Error g (emoji_cross @ '' Failed to open output file'')
                      [zap_String ''file'' outputPath, zap_Error err],
                 None)
            | Inr f \<Rightarrow>
                (mk @ [os_OpenFile outputPath]
                  @ Info g (emoji_memo @ '' Broker '' @ fmt_d (i + 1) @ '': Logging to file: ''
                            @ outputPath) [],
                 Some f))
      else ([], None))"

definition broker_addr :: "BrokerConfig \<Rightarrow> string" where
  "broker_addr brokerCfg = Broker brokerCfg @ '':'' @ Port brokerCfg"

definition client_options :: "world \<Rightarrow> nat \<Rightarrow> BrokerConfig \<Rightarrow> ClientOptions" where
  "client_options w i brokerCfg =
     \<lparr>Servers = [''tcp://'' @ broker_addr brokerCfg],
      ClientID = ''mqtt_sub_'' @ fmt_int (Now_Unix w i) @ ''_'' @ fmt_d i,
      opt_Username = (if Username brokerCfg \<noteq> '''' then Username brokerCfg else ''''),
      opt_Password = (if Username brokerCfg \<noteq> '''' then Password brokerCfg else ''''),
      AutoReconnect = True,
      CleanSession = True\<rparr>"

text \<open>Lines 154 to 160: the subscribe loop; \<open>j\<close> is the position of the topic.\<close>

fun subscribe_topics ::
  "logger_globals \<Rightarrow> world \<Rightarrow> nat \<Rightarrow> nat \<Rightarrow> string list \<Rightarrow> event list" where
  "subscribe_topics g w i j [] = []"
| "subscribe_topics g w i j (topic # topics) =
     (client_Subscribe i topic #
      (case token_failed (Subscribe w i j topic) of
         Some err \<Rightarrow>
           Error g (emoji_cross @ '' Failed to subscribe'')
             [zap_Int ''broker'' (i + 1), zap_String ''topic'' topic, zap_Error err]
       | None \<Rightarrow>
           Info g (emoji_check @ '' Broker '' @ fmt_d (i + 1) @ '': Subscribed to '' @ topic) []))
     @ subscribe_topics g w i (j + 1) topics"

text \<open>
  The body of the loop over \<open>cfg.Brokers\<close> (lines 96 to 162) for the broker with index
  \<open>i\<close>: its events, and the connection that is appended to \<open>connections\<close> (\<open>None\<close>
  where the body leaves through \<open>continue\<close>).
\<close>

definition start_broker ::
  "logger_globals \<Rightarrow> stdlib \<Rightarrow> world \<Rightarrow> nat \<Rightarrow> BrokerConfig
     \<Rightarrow> event list \<times> BrokerConnection option" where
  "start_broker g lib w i brokerCfg =
     (let (file_events, outputFile) = open_output_file g lib w i brokerCfg;
          brokerAddr = broker_addr brokerCfg;
          opts = client_options w i brokerCfg;
          broker = \<lparr>Config = brokerCfg, Client = opts, conn_OutputFile = outputFile\<rparr>;
          connecting =
            Info g (emoji_plug @ '' Connecting to Broker '' @ fmt_d (i + 1) @ '': ''
                    @ brokerAddr @ ''...'') []
            @ [client_Connect i]
      in case token_failed (Connect w i opts) of
           Some err \<Rightarrow>
             (file_events @ connecting
                @ Error g (emoji_cross @ '' Failed to connect'')
                    [zap_Int ''broker'' (i + 1), zap_String ''address'' brokerAddr, zap_Error err]
                @ (case outputFile of Some f \<Rightarrow> [file_Close f] | None \<Rightarrow> []),
              None)
         | None \<Rightarrow>
             (file_events @ connecting @ subscribe_topics g w i 0 (Topics brokerCfg),
              Some broker))"

text \<open>The loop itself, with the events so far and \<open>connections\<close> as the loop state.\<close>

fun start_brokers ::
  "logger_globals \<Rightarrow> stdlib \<Rightarrow> world \<Rightarrow> nat \<Rightarrow> BrokerConfig list
     \<Rightarrow> event list \<times> BrokerConnection list \<Rightarrow> event list \<times> BrokerConnection list" where
  "start_brokers g lib w i [] acc = acc"
| "start_brokers g lib w i (brokerCfg # rest) (events, connections) =
     (let (evs, r) = start_broker g lib w i brokerCfg
      in start_brokers g lib w (i + 1) rest
           (events @ evs,
            case r of Some broker \<Rightarrow> connections @ [broker] | None \<Rightarrow> connections))"

text \<open>
  \<open>main\<close> from the return of \<open>config.LoadConfig()\<close> until it blocks on the signal
  channel: either the process has exited (\<open>logger.Fatal\<close>), or it is listening with the
  connections it holds.
\<close>

datatype outcome =
    Exited "event list"
  | Listening "event list" "BrokerConnection list"

definition main_with :: "stdlib \<Rightarrow> world \<Rightarrow> Config \<Rightarrow> outcome" where
  "main_with lib w cfg =
     (let g = SetDetailed (Detailed cfg) (InitLogger logger_unset);
          banner =
            Info g (emoji_rocket @ '' MQTT Subscriber Service'') []
            @ Info g (emoji_chart @ '' Configured Brokers: '' @ fmt_d (length (Brokers cfg))) []
            @ Info g (emoji_glass @ '' Detailed Mode: '' @ fmt_v (Detailed cfg)) []
            @ Info g (Repeat box_dash 80) [];
          (fatal1, exited1) =
            (if length (Brokers cfg) = 0
             then Fatal g (emoji_cross @ '' No brokers configured'') [] else ([], False))
      in if exited1 then Exited (banner @ fatal1)
         else
           (let (events, connections) =
                  start_brokers g lib w 0 (Brokers cfg) (banner @ fatal1, []);
                (fatal2, exited2) =
                  (if length connections = 0
                   then Fatal g (emoji_cross @ '' No successful broker connections'') []
                   else ([], False))
            in if exited2 then Exited (events @ fatal2)
               else Listening
                      (events @ fatal2
                        @ Info g (Repeat box_dash 80) []
                        @ Info g (emoji_ear @ '' Listening for messages from ''
                                  @ fmt_d (length connections)
                                  @ '' broker(s)... (Press Ctrl+C to exit)'') []
                        @ Info g (Repeat box_dash 80) [])
                      connections))"

text \<open>Whether the broker with index \<open>i\<close> connects, as \<open>main\<close> tests it.\<close>

definition connects :: "world \<Rightarrow> nat \<Rightarrow> BrokerConfig \<Rightarrow> bool" where
  "connects w i brokerCfg \<longleftrightarrow> token_failed (Connect w i (client_options w i brokerCfg)) = None"

definition main_globals :: "Config \<Rightarrow> logger_globals" where
  "main_globals cfg = SetDetailed (Detailed cfg) (InitLogger logger_unset)"

fun outcome_events :: "outcome \<Rightarrow> event list" where
  "outcome_events (Exited events) = events"
| "outcome_events (Listening events connections) = events"

fun outcome_connections :: "outcome \<Rightarrow> BrokerConnection list" where
  "outcome_connections (Exited events) = []"
| "outcome_connections (Listening events connections) = connections"

definition connected_targets :: "world \<Rightarrow> BrokerConfig list \<Rightarrow> (nat \<times> BrokerConfig) list" where
  "connected_targets w bs = filter (\<lambda>(i, b). connects w i b) (enumerate 0 bs)"


text \<open>The entries that \<open>main\<close> logs before the loop, and the events of the whole loop.\<close>

definition main_banner :: "Config \<Rightarrow> event list" where
  "main_banner cfg =
     [Log InfoLevel (emoji_rocket @ '' MQTT Subscriber Service'') [],
      Log InfoLevel (emoji_chart @ '' Configured Brokers: '' @ fmt_d (length (Brokers cfg))) [],
      Log InfoLevel (emoji_glass @ '' Detailed Mode: '' @ fmt_v (Detailed cfg)) [],
      Log InfoLevel (Repeat box_dash 80) []]"

definition loop_events :: "logger_globals \<Rightarrow> stdlib \<Rightarrow> world \<Rightarrow> BrokerConfig list \<Rightarrow> event list" where
  "loop_events g lib w bs = concat (map (\<lambda>(k, b). fst (start_broker g lib w k b)) (enumerate 0 bs))"

subsection \<open>Concrete worlds and a concrete configuration\<close>

text \<open>
  Three brokers; in \<open>example_world\<close> the second one refuses the connection and every
  second topic of a broker is refused; in \<open>offline_world\<close> no broker connects.
\<close>

definition ok_token :: token where
  "ok_token = \<lparr>token_Wait = True, token_Error = None\<rparr>"

definition failed_token :: "error \<Rightarrow> token" where
  "failed_token err = \<lparr>token_Wait = True, token_Error = Some err\<rparr>"

definition example_broker :: "string \<Rightarrow> string list \<Rightarrow> string \<Rightarrow> BrokerConfig" where
  "example_broker host topics out =
     \<lparr>Broker = host, Port = ''1883'', Username = '''', Password = '''', Topics = topics,
      OutputFile = out\<rparr>"

definition example_config :: Config where
  "example_config =
     \<lparr>Brokers = [example_broker ''a'' [''x'', ''y''] ''a.log'',
                 example_broker ''b'' [''#''] ''b.log'',
                 example_broker ''c'' [''z''] ''''],
      Detailed = False\<rparr>"

definition example_world :: world where
  "example_world =
     \<lparr>Now_Unix = (\<lambda>i. 1700000000),
      MkdirAll = (\<lambda>i dir. None),
      OpenFile = (\<lambda>i path. Inr (3 + i)),
      Connect = (\<lambda>i opts. if i = 1 then failed_token ''connection refused'' else ok_token),
      Subscribe = (\<lambda>i j topic. if j = 1 then failed_token ''not authorized'' else ok_token)\<rparr>"

definition offline_world :: world where
  "offline_world = example_world\<lparr>Connect := (\<lambda>i opts. failed_token ''network unreachable'')\<rparr>"

text \<open>
  The connection that the loop body builds for the broker with index \<open>i\<close>, and the log
  entry that the subscribe loop writes for the topic at position \<open>j\<close>.
\<close>

definition new_connection ::
  "logger_globals \<Rightarrow> stdlib \<Rightarrow> world \<Rightarrow> nat \<times> BrokerConfig \<Rightarrow> BrokerConnection" where
  "new_connection g lib w ib =
     \<lparr>Config = snd ib, Client = client_options w (fst ib) (snd ib),
      conn_OutputFile = snd (open_output_file g lib w (fst ib) (snd ib))\<rparr>"

definition subscribe_entry :: "world \<Rightarrow> nat \<Rightarrow> nat \<times> string \<Rightarrow> event" where
  "subscribe_entry w i jt =
     (case token_failed (Subscribe w i (fst jt) (snd jt)) of
        Some err \<Rightarrow>
          Log ErrorLevel (emoji_cross @ '' Failed to subscribe'')
            [zap_Int ''broker'' (i + 1), zap_String ''topic'' (snd jt), zap_Error err]
      | None \<Rightarrow>
          Log InfoLevel (emoji_check @ '' Broker '' @ fmt_d (i + 1) @ '': Subscribed to '' @ snd jt) [])"

text \<open>A world in which the directory cannot be created and the file is opened all the same.\<close>

definition mkdir_fails_world :: world where
  "mkdir_fails_world = example_world\<lparr>MkdirAll := (\<lambda>i dir. Some ''permission denied'')\<rparr>"

section \<open>The message handler (cmd/server/main.go, createMessageHandler)\<close>

text \<open>
  An open output file: the bytes that are on storage, and the bytes that were written
  but are not yet synced. What the handler's calls into the outside world return is read
  from \<open>handler_io\<close>: \<open>time.Now().Format(layout)\<close>, the result of
  \<open>File.WriteString\<close> (the number of bytes written and the error) and the result of
  \<open>File.Sync\<close>.
\<close>

record file_state =
  on_storage :: bytes
  unsynced :: bytes

record handler_io =
  Now_Format :: "string \<Rightarrow> string"
  WriteString_result :: "bytes \<Rightarrow> nat \<times> error option"
  Sync_result :: "error option"

definition WriteString :: "handler_io \<Rightarrow> bytes \<Rightarrow> file_state \<Rightarrow> file_state \<times> nat \<times> error option" where
  "WriteString io s fs =
     (let (n, err) = WriteString_result io s
      in (fs\<lparr>unsynced := unsynced fs @ take n s\<rparr>, n, err))"

text \<open>A sync that fails guarantees nothing; the model leaves the file as it was.\<close>

definition Sync :: "handler_io \<Rightarrow> file_state \<Rightarrow> file_state \<times> error option" where
  "Sync io fs =
     (case Sync_result io of
        None \<Rightarrow> (\<lparr>on_storage = on_storage fs @ unsynced fs, unsynced = []\<rparr>, None)
      | Some err \<Rightarrow> (fs, Some err))"

text \<open>
  The handler that \<open>createMessageHandler(broker, brokerIndex)\<close> returns, applied to a
  message: the events it hands to the logger and the open files afterwards. A
  \<open>mqtt.MessageHandler\<close> has no result. The results of \<open>WriteString\<close> and \<open>Sync\<close>
  are bound here and, as in the source, not used. The mutex that the handler holds from
  its first to its last statement is the subject of the section on concurrent handlers.
\<close>

definition createMessageHandler ::
  "'j json_lib \<Rightarrow> logger_globals \<Rightarrow> handler_io \<Rightarrow> BrokerConnection \<Rightarrow> nat \<Rightarrow> message
     \<Rightarrow> (os_file \<Rightarrow> file_state) \<Rightarrow> event list \<times> (os_file \<Rightarrow> file_state)" where
  "createMessageHandler lib g io broker brokerIndex msg files =
     (let brokerAddr = Broker (Config broker) @ '':'' @ Port (Config broker);
          message = formatMessage lib msg (IsDetailed g);
          console =
            Info g (''[Broker '' @ fmt_d (brokerIndex + 1) @ '': '' @ brokerAddr @ ''] ''
                    @ message) []
      in case conn_OutputFile broker of
           Some f \<Rightarrow>
             (let timestamp = Now_Format io ''2006-01-02 15:04:05.000'';
                  fileMessage =
                    ''['' @ timestamp @ ''] [Broker '' @ fmt_d (brokerIndex + 1) @ '': ''
                    @ brokerAddr @ ''] '' @ message @ [CHR 0x0A];
                  (fs1, n, write_err) = WriteString io fileMessage (files f);
                  (fs2, sync_err) = Sync io fs1
              in (console, files(f := fs2)))
         | None \<Rightarrow> (console, files))"

text \<open>The line that the handler writes to the output file.\<close>

definition file_line ::
  "'j json_lib \<Rightarrow> logger_globals \<Rightarrow> handler_io \<Rightarrow> BrokerConnection \<Rightarrow> nat \<Rightarrow> message \<Rightarrow> bytes" where
  "file_line lib g io broker brokerIndex msg =
     ''['' @ Now_Format io ''2006-01-02 15:04:05.000'' @ ''] ''
     @ ''[Broker '' @ fmt_d (brokerIndex + 1) @ '': '' @ broker_addr (Config broker) @ ''] ''
     @ formatMessage lib msg (detailed g) @ [CHR 0x0A]"

subsection \<open>A concrete session, and two behaviours of its output file\<close>

definition example_globals :: logger_globals where
  "example_globals = \<lparr>logger = True, detailed = False\<rparr>"

definition example_connection :: BrokerConnection where
  "example_connection =
     \<lparr>Config = example_broker ''a'' [''x''] ''a.log'',
      Client = client_options example_world 0 (example_broker ''a'' [''x''] ''a.log''),
      conn_OutputFile = Some 3\<rparr>"

definition example_message :: message where
  "example_message = \<lparr>Topic = ''x'', Payload = ''hi''\<rparr>"

definition empty_files :: "os_file \<Rightarrow> file_state" where
  "empty_files = (\<lambda>f. \<lparr>on_storage = [], unsynced = []\<rparr>)"

definition good_io :: handler_io where
  "good_io =
     \<lparr>Now_Format = (\<lambda>layout. ''2026-01-02 03:04:05.678''),
      WriteString_result = (\<lambda>s. (length s, None)),
      Sync_result = None\<rparr>"

definition full_disk_io :: handler_io where
  "full_disk_io = good_io\<lparr>WriteString_result := (\<lambda>s. (0, Some ''no space left on device''))\<rparr>"

subsection \<open>The handler of the single-broker program (unnamed/part_000, cmd/main.go)\<close>

text \<open>
  The single-broker \<open>main\<close> registers \<open>messageHandler\<close>, which formats in place, with
  the same two format strings as \<open>formatMessage\<close>, and hands the text to the logger.
\<close>

definition messageHandler :: "'j json_lib \<Rightarrow> logger_globals \<Rightarrow> message \<Rightarrow> event list" where
  "messageHandler lib g msg =
     (if IsDetailed g then
        (let payload = Payload msg;
             prettyPayload =
               (case json_Unmarshal lib payload of
                  Inr jsonObj \<Rightarrow>
                    (case json_MarshalIndent lib jsonObj '''' ''  '' of
                       Inr prettyJSON \<Rightarrow> prettyJSON
                     | Inl err \<Rightarrow> payload)
                | Inl err \<Rightarrow> payload)
         in Info g (emoji_envelope @ '' '' @ Topic msg @ '' ('' @ fmt_d (length (Payload msg))
                    @ '' bytes)'' @ [CHR 0x0A] @ prettyPayload) [])
      else Info g (emoji_envelope @ '' '' @ Topic msg @ '' ('' @ fmt_d (length (Payload msg))
                    @ '' bytes)'') [])"

section \<open>Loading the configuration (config/config.go)\<close>

text \<open>
  The process environment is a finite list of key/value pairs, the first pair of a key
  being the one in force. \<open>os.Getenv\<close> returns the empty string for a key that is not
  set. \<open>os.Setenv\<close> fails, and changes nothing, for an empty key, a key with \<open>=\<close> or
  NUL in it, or a value with NUL in it; the program ignores its result.
\<close>

type_synonym environ = "(string \<times> string) list"

definition Getenv :: "environ \<Rightarrow> string \<Rightarrow> string" where
  "Getenv env key = (case map_of env key of Some v \<Rightarrow> v | None \<Rightarrow> '''')"

definition Setenv :: "environ \<Rightarrow> string \<Rightarrow> string \<Rightarrow> environ" where
  "Setenv env key v =
     (if key = '''' \<or> CHR ''='' \<in> set key \<or> CHR 0x00 \<in> set key \<or> CHR 0x00 \<in> set v
      then env else (key, v) # filter (\<lambda>kv. fst kv \<noteq> key) env)"

definition getEnv :: "environ \<Rightarrow> string \<Rightarrow> string \<Rightarrow> string" where
  "getEnv env key fallback =
     (let v = Getenv env key in if v \<noteq> '''' then v else fallback)"

text \<open>
  \<open>strings.HasPrefix\<close>; \<open>strings.SplitN(s, sep, 2)\<close> and \<open>strings.Split(s, sep)\<close> for a
  separator of one byte.
\<close>

definition HasPrefix :: "string \<Rightarrow> string \<Rightarrow> bool" where
  "HasPrefix s p \<longleftrightarrow> take (length p) s = p"

definition SplitN2 :: "string \<Rightarrow> char \<Rightarrow> string list" where
  "SplitN2 s sep =
     (if sep \<in> set s
      then [takeWhile (\<lambda>c. c \<noteq> sep) s, drop 1 (dropWhile (\<lambda>c. c \<noteq> sep) s)]
      else [s])"

fun Split :: "string \<Rightarrow> char \<Rightarrow> string list" where
  "Split [] sep = ['''']"
| "Split (c # cs) sep =
     (if c = sep then '''' # Split cs sep
      else (case Split cs sep of
              part # parts \<Rightarrow> (c # part) # parts
            | [] \<Rightarrow> [[c]]))"

text \<open>
  What \<open>LoadConfig\<close> reads from the outside: the environment of the process; the lines
  that the scanner yields for a file (\<open>None\<close> when \<open>os.Open\<close> fails); \<open>os.ReadFile\<close>;
  and \<open>json.Unmarshal(data, cfg)\<close> for a \<open>*Config\<close>, which returns an error and leaves
  \<open>cfg\<close> changed (also when it returns an error).
\<close>

record config_world =
  Environ :: environ
  Open_lines :: "string \<Rightarrow> string list option"
  ReadFile :: "string \<Rightarrow> error + bytes"
  Unmarshal_Config :: "bytes \<Rightarrow> Config \<Rightarrow> error option \<times> Config"

fun loadEnvLines :: "stdlib \<Rightarrow> string list \<Rightarrow> environ \<Rightarrow> environ" where
  "loadEnvLines lib [] env = env"
| "loadEnvLines lib (text # rest) env =
     (let line = TrimSpace lib text
      in if line = '''' \<or> HasPrefix line ''#'' then loadEnvLines lib rest env
         else
           (let parts = SplitN2 line (CHR ''='')
            in if length parts = 2 then
                 (let key = TrimSpace lib (parts ! 0);
                      v = TrimSpace lib (parts ! 1)
                  in if Getenv env key = '''' then loadEnvLines lib rest (Setenv env key v)
                     else loadEnvLines lib rest env)
               else loadEnvLines lib rest env))"

definition loadEnvFile :: "stdlib \<Rightarrow> config_world \<Rightarrow> string \<Rightarrow> environ \<Rightarrow> environ" where
  "loadEnvFile lib cw filename env =
     (case Open_lines cw filename of
        None \<Rightarrow> env
      | Some lines \<Rightarrow> loadEnvLines lib lines env)"

definition normalize_broker :: "stdlib \<Rightarrow> BrokerConfig \<Rightarrow> BrokerConfig" where
  "normalize_broker lib broker =
     (let broker = (if Port broker = '''' then broker\<lparr>Port := ''1883''\<rparr> else broker);
          broker = (if length (Topics broker) = 0 then broker\<lparr>Topics := [''#'']\<rparr> else broker)
      in broker\<lparr>Topics := map (TrimSpace lib) (Topics broker)\<rparr>)"

definition validateAndNormalizeConfig :: "stdlib \<Rightarrow> Config \<Rightarrow> Config" where
  "validateAndNormalizeConfig lib cfg = cfg\<lparr>Brokers := map (normalize_broker lib) (Brokers cfg)\<rparr>"

definition gate_topics :: "string \<Rightarrow> string list" where
  "gate_topics gateID =
     [gateID @ ''_localfirst'', gateID @ ''_parkbox'', gateID @ ''_status'', gateID @ ''_events'']"

definition broker_key :: "nat \<Rightarrow> string \<Rightarrow> string" where
  "broker_key brokerIndex name = ''BROKER_'' @ fmt_d brokerIndex @ ''_'' @ name"

text \<open>
  The body of the loop of \<open>loadConfigFromEnv\<close> after the test of the host: the broker
  with index \<open>brokerIndex\<close> as the environment describes it.
\<close>

definition env_broker :: "stdlib \<Rightarrow> environ \<Rightarrow> nat \<Rightarrow> BrokerConfig" where
  "env_broker lib env brokerIndex =
     (let broker =
            \<lparr>Broker = getEnv env (broker_key brokerIndex ''HOST'') '''',
             Port = getEnv env (broker_key brokerIndex ''PORT'') ''1883'',
             Username = getEnv env (broker_key brokerIndex ''USERNAME'') '''',
             Password = getEnv env (broker_key brokerIndex ''PASSWORD'') '''',
             Topics = [],
             OutputFile = getEnv env (broker_key brokerIndex ''OUTPUT_FILE'') ''''\<rparr>;
          topicsEnv = getEnv env (broker_key brokerIndex ''TOPICS'') '''';
          broker =
            (if topicsEnv \<noteq> ''''
             then broker\<lparr>Topics := map (TrimSpace lib) (Split topicsEnv (CHR '',''))\<rparr>
             else broker);
          gateID = getEnv env (broker_key brokerIndex ''GATE_ID'') '''';
          broker =
            (if gateID \<noteq> '''' then broker\<lparr>Topics := Topics broker @ gate_topics gateID\<rparr>
             else broker)
      in if length (Topics broker) = 0 then broker\<lparr>Topics := [''#'']\<rparr> else broker)"

text \<open>
  The loop \<open>for { ... }\<close> of \<open>loadConfigFromEnv\<close>: it goes on while
  \<open>BROKER_<n>_HOST\<close> is set and not empty. It ends because the environment is finite
  and different indices have different keys. (\<open>brokerIndex\<close> is a Go \<open>int\<close>; it would
  take more than \<open>2^63\<close> variables to overflow it.)
\<close>

function load_env_brokers ::
  "stdlib \<Rightarrow> environ \<Rightarrow> nat \<Rightarrow> BrokerConfig list \<Rightarrow> BrokerConfig list" where
  "load_env_brokers lib env brokerIndex brokers =
     (if getEnv env (broker_key brokerIndex ''HOST'') '''' = '''' then brokers
      else load_env_brokers lib env (brokerIndex + 1)
             (brokers @ [env_broker lib env brokerIndex]))"
  by pat_completeness auto
termination
proof (relation "measure (\<lambda>(lib, env, brokerIndex, brokers).
    card {n. brokerIndex \<le> n \<and> broker_key n ''HOST'' \<in> fst ` set env})")
  show "wf (measure (\<lambda>(lib, env, brokerIndex, brokers).
      card {n. brokerIndex \<le> n \<and> broker_key n ''HOST'' \<in> fst ` set env}))"
    by simp
next
  fix lib :: stdlib and env :: environ and brokerIndex :: nat and brokers :: "BrokerConfig list"
  let ?S = "\<lambda>i. {n. i \<le> n \<and> broker_key n ''HOST'' \<in> fst ` set env}"
  assume set: "getEnv env (broker_key brokerIndex ''HOST'') '''' \<noteq> ''''"
  have value_of: "decimal_value (fmt_d n) = n" for n
  proof (induction n rule: fmt_d.induct)
    case (1 n)
    show ?case
    proof (cases "n < 10")
      case True
      then show ?thesis
        by (simp add: fmt_d.simps [of n] decimal_value_def digit_val_def digit_char_def)
    next
      case False
      then have "decimal_value (fmt_d n)
          = 10 * decimal_value (fmt_d (n div 10)) + digit_val (digit_char (n mod 10))"
        by (simp add: fmt_d.simps [of n] decimal_value_def)
      also have "\<dots> = 10 * (n div 10) + n mod 10"
        using False "1.IH" by (simp add: digit_val_def digit_char_def)
      finally show ?thesis by simp
    qed
  qed
  have "inj (\<lambda>n. broker_key n ''HOST'')"
  proof (rule injI)
    fix m n
    assume "broker_key m ''HOST'' = broker_key n ''HOST''"
    then have "fmt_d m = fmt_d n"
      by (simp add: broker_key_def)
    then have "decimal_value (fmt_d m) = decimal_value (fmt_d n)"
      by simp
    then show "m = n"
      by (simp add: value_of)
  qed
  then have "finite ((\<lambda>n. broker_key n ''HOST'') -` (fst ` set env))"
    by (simp add: finite_vimageI)
  moreover have "?S brokerIndex \<subseteq> (\<lambda>n. broker_key n ''HOST'') -` (fst ` set env)"
    by auto
  ultimately have fin: "finite (?S brokerIndex)"
    by (rule rev_finite_subset)
  have "map_of env (broker_key brokerIndex ''HOST'') \<noteq> None"
    using set by (auto simp: getEnv_def Getenv_def Let_def split: option.splits)
  then have "broker_key brokerIndex ''HOST'' \<in> fst ` set env"
    by (simp add: map_of_eq_None_iff)
  then have "brokerIndex \<in> ?S brokerIndex" "brokerIndex \<notin> ?S (brokerIndex + 1)"
    by auto
  moreover have "?S (brokerIndex + 1) \<subseteq> ?S brokerIndex"
    by auto
  ultimately have "?S (brokerIndex + 1) \<subset> ?S brokerIndex"
    by blast
  with fin have "card (?S (brokerIndex + 1)) < card (?S brokerIndex)"
    by (rule psubset_card_mono)
  then show "((lib, env, brokerIndex + 1, brokers @ [env_broker lib env brokerIndex]),
       (lib, env, brokerIndex, brokers))
      \<in> measure (\<lambda>(lib, env, brokerIndex, brokers).
          card {n. brokerIndex \<le> n \<and> broker_key n ''HOST'' \<in> fst ` set env})"
    by simp
qed

declare load_env_brokers.simps [simp del]

text \<open>The legacy single broker (the branch for an empty \<open>brokers\<close>).\<close>

definition legacy_broker :: "stdlib \<Rightarrow> environ \<Rightarrow> BrokerConfig" where
  "legacy_broker lib env =
     (let broker =
            \<lparr>Broker = getEnv env ''MQTT_BROKER'' ''localhost'',
             Port = getEnv env ''MQTT_PORT'' ''1883'',
             Username = getEnv env ''MQTT_USERNAME'' '''',
             Password = getEnv env ''MQTT_PASSWORD'' '''',
             Topics = [],
             OutputFile = ''''\<rparr>;
          logFileEnv = getEnv env ''LOG_FILE'' '''';
          broker =
            (if logFileEnv = '''' then broker\<lparr>OutputFile := ''''\<rparr>
             else if logFileEnv = ''true'' \<or> logFileEnv = ''1''
             then broker\<lparr>OutputFile := ''mqtt.log''\<rparr>
             else broker\<lparr>OutputFile := logFileEnv\<rparr>);
          topicsEnv = getEnv env ''MQTT_TOPICS'' '''';
          broker =
            (if topicsEnv \<noteq> ''''
             then broker\<lparr>Topics := map (TrimSpace lib) (Split topicsEnv (CHR '',''))\<rparr>
             else broker);
          gateID = getEnv env ''GATE_ID'' '''';
          broker =
            (if gateID \<noteq> '''' then broker\<lparr>Topics := Topics broker @ gate_topics gateID\<rparr>
             else broker)
      in if length (Topics broker) = 0 then broker\<lparr>Topics := [''#'']\<rparr> else broker)"

definition loadConfigFromEnv :: "stdlib \<Rightarrow> environ \<Rightarrow> Config" where
  "loadConfigFromEnv lib env =
     (let cfg = \<lparr>Brokers = [], Detailed = (getEnv env ''DETAILED'' ''false'' = ''true'')\<rparr>;
          brokers = load_env_brokers lib env 1 [];
          brokers = (if length brokers = 0 then brokers @ [legacy_broker lib env] else brokers)
      in cfg\<lparr>Brokers := brokers\<rparr>)"

definition LoadConfig :: "stdlib \<Rightarrow> config_world \<Rightarrow> Config" where
  "LoadConfig lib cw =
     (let env = loadEnvFile lib cw ''.env'' (Environ cw);
          cfg = \<lparr>Brokers = [], Detailed = (getEnv env ''DETAILED'' ''false'' = ''true'')\<rparr>;
          configFile = getEnv env ''CONFIG_FILE'' ''config.json''
      in case ReadFile cw configFile of
           Inr data \<Rightarrow>
             (case Unmarshal_Config cw data cfg of
                (err, cfg') \<Rightarrow>
                  if err = None \<and> length (Brokers cfg') > 0
                  then validateAndNormalizeConfig lib cfg'
                  else loadConfigFromEnv lib env)
         | Inl err \<Rightarrow> loadConfigFromEnv lib env)"

text \<open>\<open>main\<close>, from its first statement until it blocks on the signal channel.\<close>

definition main :: "stdlib \<Rightarrow> config_world \<Rightarrow> world \<Rightarrow> outcome" where
  "main lib cw w = main_with lib w (LoadConfig lib cw)"

text \<open>The environment that \<open>LoadConfig\<close> works with, after the \<open>.env\<close> file.\<close>

definition config_env :: "stdlib \<Rightarrow> config_world \<Rightarrow> environ" where
  "config_env lib cw = loadEnvFile lib cw ''.env'' (Environ cw)"

subsection \<open>Concrete configuration sources\<close>

text \<open>
  An environment with two numbered brokers; a configuration file that cannot be decoded,
  although the decoder has already filled in one broker when it fails; and a
  configuration file that decodes to one broker.
\<close>

definition example_env :: environ where
  "example_env =
     [(''BROKER_1_HOST'', ''h1''), (''BROKER_1_TOPICS'', ''a, b''),
      (''BROKER_2_HOST'', ''h2''), (''BROKER_2_PORT'', ''8883'')]"

definition json_broker :: BrokerConfig where
  "json_broker =
     \<lparr>Broker = ''j1'', Port = '''', Username = '''', Password = '''', Topics = [],
      OutputFile = ''''\<rparr>"

definition broken_file_world :: config_world where
  "broken_file_world =
     \<lparr>Environ = example_env,
      Open_lines = (\<lambda>name. None),
      ReadFile = (\<lambda>name. Inr ''{\"brokers\": [{\"broker\": \"j1\"}], \"detailed\": 3}''),
      Unmarshal_Config = (\<lambda>data cfg. (Some ''cannot unmarshal number into Go struct field'',
                                       cfg\<lparr>Brokers := [json_broker]\<rparr>))\<rparr>"

definition good_file_world :: config_world where
  "good_file_world =
     broken_file_world\<lparr>Unmarshal_Config := (\<lambda>data cfg. (None, cfg\<lparr>Brokers := [json_broker]\<rparr>))\<rparr>"

section \<open>Concurrent handlers and the mutex of a broker connection\<close>

text \<open>
  The transport runs a handler for each message it delivers, and handlers of different
  connections run at the same time. A thread is one run of a handler; \<open>broker_of\<close> says
  which connection's handler a thread runs. The handler locks \<open>broker.mu\<close>, the mutex
  in the \<open>BrokerConnection\<close> it was created for, as its first statement and unlocks it
  (deferred) as its last; in between it formats the message, hands the console line to
  the logger and writes the file. A thread is at one of these program points; a thread
  at \<open>AtLock\<close> whose mutex is held does not move. A schedule lists the threads in the
  order in which they take their steps.
\<close>

datatype pc = AtLock | AtFormat | AtConsole | AtFile | AtUnlock | Returned

record handlers_state =
  pcs :: "nat \<Rightarrow> pc"
  mu :: "nat \<Rightarrow> bool"

definition handlers_init :: handlers_state where
  "handlers_init = \<lparr>pcs = (\<lambda>t. AtLock), mu = (\<lambda>i. False)\<rparr>"

definition handler_step :: "(nat \<Rightarrow> nat) \<Rightarrow> handlers_state \<Rightarrow> nat \<Rightarrow> handlers_state" where
  "handler_step broker_of s t =
     (case pcs s t of
        AtLock \<Rightarrow>
          if mu s (broker_of t) then s
          else s\<lparr>pcs := (pcs s)(t := AtFormat), mu := (mu s)(broker_of t := True)\<rparr>
      | AtFormat \<Rightarrow> s\<lparr>pcs := (pcs s)(t := AtConsole)\<rparr>
      | AtConsole \<Rightarrow> s\<lparr>pcs := (pcs s)(t := AtFile)\<rparr>
      | AtFile \<Rightarrow> s\<lparr>pcs := (pcs s)(t := AtUnlock)\<rparr>
      | AtUnlock \<Rightarrow> s\<lparr>pcs := (pcs s)(t := Returned), mu := (mu s)(broker_of t := False)\<rparr>
      | Returned \<Rightarrow> s)"

definition run_handlers :: "(nat \<Rightarrow> nat) \<Rightarrow> nat list \<Rightarrow> handlers_state" where
  "run_handlers broker_of schedule = foldl (handler_step broker_of) handlers_init schedule"

text \<open>A thread is in the locked part of the handler: formatting and writing one message.\<close>

fun in_locked_part :: "pc \<Rightarrow> bool" where
  "in_locked_part AtLock = False"
| "in_locked_part AtFormat = True"
| "in_locked_part AtConsole = True"
| "in_locked_part AtFile = True"
| "in_locked_part AtUnlock = True"
| "in_locked_part Returned = False"

definition mutex_invariant :: "(nat \<Rightarrow> nat) \<Rightarrow> handlers_state \<Rightarrow> bool" where
  "mutex_invariant broker_of s \<longleftrightarrow>
     (\<forall>t. in_locked_part (pcs s t) \<longrightarrow> mu s (broker_of t))
     \<and> (\<forall>t t'. in_locked_part (pcs s t) \<and> in_locked_part (pcs s t')
               \<and> broker_of t = broker_of t' \<longrightarrow> t = t')"

section \<open>Properties of the formatter\<close>

lemma digit_val_digit_char: "d < 10 \<Longrightarrow> digit_val (digit_char d) = d"
  by (simp add: digit_val_def digit_char_def)

lemma fmt_d_digit: "n < 10 \<Longrightarrow> fmt_d n = [digit_char n]"
  by (simp add: fmt_d.simps [of n])

lemma digit_char_numerals:
  "digit_char 0 = CHR ''0''" "digit_char 1 = CHR ''1''" "digit_char 2 = CHR ''2''"
  "digit_char 3 = CHR ''3''" "digit_char 4 = CHR ''4''" "digit_char 5 = CHR ''5''"
  "digit_char 6 = CHR ''6''" "digit_char 7 = CHR ''7''" "digit_char 8 = CHR ''8''"
  "digit_char 9 = CHR ''9''"
  by code_simp+

lemma decimal_value_snoc: "decimal_value (ds @ [c]) = 10 * decimal_value ds + digit_val c"
  by (simp add: decimal_value_def)

lemma decimal_value_fmt_d: "decimal_value (fmt_d n) = n"
proof (induction n rule: fmt_d.induct)
  case (1 n)
  show ?case
  proof (cases "n < 10")
    case True
    then show ?thesis
      by (simp add: fmt_d_digit decimal_value_def digit_val_digit_char)
  next
    case False
    have "decimal_value (fmt_d n) = 10 * decimal_value (fmt_d (n div 10)) + digit_val (digit_char (n mod 10))"
      using False by (simp add: fmt_d.simps [of n] decimal_value_snoc)
    also have "\<dots> = 10 * (n div 10) + n mod 10"
      using False "1.IH" by (simp add: digit_val_digit_char)
    also have "\<dots> = n" by simp
    finally show ?thesis .
  qed
qed

lemma fmt_d_inj: "fmt_d m = fmt_d n \<Longrightarrow> m = n"
  by (metis decimal_value_fmt_d)

lemma parse_render_lit: "parse_lit (render_lit l) = Some l"
  by (cases l rule: render_lit.cases) (simp_all add: parse_lit_def)

lemma strip_render_lit: "strip_json_ws (render_lit l) = render_lit l"
  by (cases l rule: render_lit.cases) (simp_all add: strip_json_ws_def is_json_ws_def)

lemma strip_indented_lit:
  "strip_json_ws ([CHR 0x0A] @ ''  '' @ render_lit l @ [CHR 0x0A]) = render_lit l"
  by (cases l rule: render_lit.cases) (simp_all add: strip_json_ws_def is_json_ws_def)

lemma lit_roundtrip_value:
  "\<exists>s. lit_MarshalIndent v '''' ''  '' = Inr s \<and> lit_Unmarshal s = Inr v"
proof (cases v)
  case (JLit l)
  then show ?thesis
    by (simp add: lit_Unmarshal_def strip_render_lit parse_render_lit)
next
  case (JArray a)
  show ?thesis
  proof (cases a)
    case None
    with JArray show ?thesis
      by (simp add: lit_Unmarshal_def strip_json_ws_def is_json_ws_def parse_lit_def)
  next
    case (Some l)
    let ?s = "''['' @ [CHR 0x0A] @ ''  '' @ render_lit l @ [CHR 0x0A] @ '']''"
    have whole: "strip_json_ws ?s = ?s"
      by (simp add: strip_json_ws_def is_json_ws_def)
    have not_lit: "parse_lit ?s = None"
      by (simp add: parse_lit_def)
    have len: "length ?s = length (render_lit l) + 6"
      by simp
    have inner: "take (length ?s - 2) (drop 1 ?s)
        = [CHR 0x0A] @ ''  '' @ render_lit l @ [CHR 0x0A]"
      by simp
    have last: "drop (length ?s - 1) ?s = '']''"
      by simp
    have "lit_Unmarshal ?s = Inr (JArray (Some l))"
      unfolding lit_Unmarshal_def Let_def whole not_lit inner last
      using strip_indented_lit [of l] parse_render_lit [of l]
      by (cases l rule: render_lit.cases) simp_all
    with JArray Some show ?thesis
      by simp
  qed
qed

lemma lit_json_roundtrip: "json_roundtrip lit_json"
  using lit_roundtrip_value by (simp add: json_roundtrip_def lit_json_def)

text \<open>
  C3, as the code has it. Without the detailed flag the formatter returns the envelope
  emoji (U+1F4E9, four bytes in UTF-8), one space, and then the text
  \<open><topic> (<N> bytes)\<close>, where \<open>N\<close> is the decimal numeral of the payload's length in
  bytes. The result depends on the payload through its length only: two payloads of the
  same length give the same text for the same topic, and the JSON library is not
  consulted. The handler of the single-broker program hands the same text to the logger.
\<close>

theorem formatMessage_plain:
  "formatMessage lib \<lparr>Topic = t, Payload = p\<rparr> False
     = emoji_envelope @ '' '' @ (t @ '' ('' @ fmt_d (length p) @ '' bytes)'')
   \<and> decimal_value (fmt_d (length p)) = length p
   \<and> (length p' = length p \<longrightarrow>
        formatMessage lib' \<lparr>Topic = t, Payload = p'\<rparr> False
          = formatMessage lib \<lparr>Topic = t, Payload = p\<rparr> False)
   \<and> (\<not> detailed g \<longrightarrow>
        messageHandler lib g \<lparr>Topic = t, Payload = p\<rparr>
          = Info g (formatMessage lib \<lparr>Topic = t, Payload = p\<rparr> False) [])"
proof -
  have plain: "formatMessage lib0 \<lparr>Topic = t, Payload = q\<rparr> False
      = emoji_envelope @ '' '' @ (t @ '' ('' @ fmt_d (length q) @ '' bytes)'')" for lib0 q
    by (simp add: formatMessage_def)
  have same: "formatMessage lib' \<lparr>Topic = t, Payload = p'\<rparr> False
      = formatMessage lib \<lparr>Topic = t, Payload = p\<rparr> False" if "length p' = length p"
    using that by (simp add: plain)
  have legacy: "messageHandler lib g \<lparr>Topic = t, Payload = p\<rparr>
      = Info g (formatMessage lib \<lparr>Topic = t, Payload = p\<rparr> False) []" if "\<not> detailed g"
    using that by (simp add: messageHandler_def IsDetailed_def formatMessage_def)
  from plain [of lib p] same legacy show ?thesis
    by (simp add: decimal_value_fmt_d)
qed

theorem formatMessage_plain_witness:
  "formatMessage lit_json \<lparr>Topic = ''t/a'', Payload = ''{x''\<rparr> False
     = emoji_envelope @ '' '' @ (''t/a'' @ '' ('' @ ''2'' @ '' bytes)'')
   \<and> formatMessage lit_json \<lparr>Topic = ''t/a'', Payload = ''ab''\<rparr> False
     = formatMessage lit_json \<lparr>Topic = ''t/a'', Payload = ''{x''\<rparr> False
   \<and> messageHandler lit_json example_globals \<lparr>Topic = ''t/a'', Payload = ''{x''\<rparr>
     = Info example_globals
         (formatMessage lit_json \<lparr>Topic = ''t/a'', Payload = ''{x''\<rparr> False) []"
proof -
  have "fmt_d (length ''{x'') = ''2''"
    by code_simp
  then show ?thesis
    using formatMessage_plain [of lit_json "''t/a''" "''{x''" "''ab''" lit_json example_globals]
    by (simp add: example_globals_def)
qed

text \<open>
  The statement of C3 itself, that the result is exactly \<open><topic> (<N> bytes)\<close>, fails:
  for topic \<open>t/a\<close> and the two-byte payload \<open>{x\<close> the result is not \<open>t/a (2 bytes)\<close>
  (it starts with the emoji).
\<close>

theorem formatMessage_plain_counterexample:
  "formatMessage lit_json \<lparr>Topic = ''t/a'', Payload = ''{x''\<rparr> False \<noteq> ''t/a (2 bytes)''"
  by (simp add: formatMessage_def emoji_envelope_def)

text \<open>
  C4. With the detailed flag the result is the topic/length line, a line feed, and the
  payload section. The topic/length line is the envelope emoji, a space, the topic, and
  in parentheses the decimal numeral of the payload's length in bytes followed by
  \<open>bytes\<close>: the text that the formatter returns without the flag. When
  \<open>json.Unmarshal\<close> rejects the payload, the section is the payload's bytes unchanged.
  When it accepts the payload with value \<open>v\<close>, the section is what
  \<open>json.MarshalIndent(v, "", "  ")\<close> returns (empty prefix, two-space indent), or the
  payload's bytes should that call return an error. The formatter is a total function:
  both library errors are branches that return text. With a JSON library that keeps its
  round-trip contract, the call does not return an error for a decoded value, and
  decoding the section gives \<open>v\<close> again.
\<close>

theorem formatMessage_detailed:
  "\<exists>section.
     formatMessage lib msg True
       = emoji_envelope @ '' '' @ Topic msg @ '' ('' @ fmt_d (length (Payload msg))
         @ '' bytes)'' @ [CHR 0x0A] @ section
   \<and> decimal_value (fmt_d (length (Payload msg))) = length (Payload msg)
   \<and> formatMessage lib msg True = formatMessage lib msg False @ [CHR 0x0A] @ section
   \<and> (case json_Unmarshal lib (Payload msg) of
        Inl err \<Rightarrow> section = Payload msg
      | Inr v \<Rightarrow>
          (case json_MarshalIndent lib v '''' ''  '' of
             Inr pretty \<Rightarrow> section = pretty
           | Inl err \<Rightarrow> section = Payload msg)
          \<and> (json_roundtrip lib \<longrightarrow>
                json_MarshalIndent lib v '''' ''  '' = Inr section
                \<and> json_Unmarshal lib section = Inr v))"
proof (cases "json_Unmarshal lib (Payload msg)")
  case (Inl err)
  then show ?thesis
    by (simp add: formatMessage_def Let_def decimal_value_fmt_d)
next
  case (Inr v)
  show ?thesis
  proof (cases "json_MarshalIndent lib v '''' ''  ''")
    case failed: (Inl err)
    with Inr have "\<not> json_roundtrip lib"
      unfolding json_roundtrip_def by force
    with Inr failed show ?thesis
      by (simp add: formatMessage_def Let_def decimal_value_fmt_d)
  next
    case pretty: (Inr s)
    have "json_Unmarshal lib s = Inr v" if "json_roundtrip lib"
      using that Inr pretty unfolding json_roundtrip_def by force
    with Inr pretty show ?thesis
      by (simp add: formatMessage_def Let_def decimal_value_fmt_d)
  qed
qed

lemma unmarshal_examples:
  "lit_Unmarshal '' [ true ]'' = Inr (JArray (Some (LBool True)))"
  "lit_Unmarshal (''['' @ [CHR 0x0A] @ ''  true'' @ [CHR 0x0A] @ '']'')
     = Inr (JArray (Some (LBool True)))"
  "lit_Unmarshal ''{x'' = Inl ''invalid character''"
  by (simp_all add: lit_Unmarshal_def strip_json_ws_def is_json_ws_def parse_lit_def)

theorem formatMessage_detailed_witness:
  "json_roundtrip lit_json
   \<and> formatMessage lit_json \<lparr>Topic = ''t'', Payload = '' [ true ]''\<rparr> True
       = emoji_envelope @ '' t (9 bytes)'' @ [CHR 0x0A]
         @ ''['' @ [CHR 0x0A] @ ''  true'' @ [CHR 0x0A] @ '']''
   \<and> lit_Unmarshal (''['' @ [CHR 0x0A] @ ''  true'' @ [CHR 0x0A] @ '']'')
       = lit_Unmarshal '' [ true ]''
   \<and> formatMessage lit_json \<lparr>Topic = ''t'', Payload = ''{x''\<rparr> True
       = emoji_envelope @ '' t (2 bytes)'' @ [CHR 0x0A] @ ''{x''"
proof -
  have digits: "fmt_d (length '' [ true ]'') = ''9''" "fmt_d (length ''{x'') = ''2''"
    by code_simp+
  show ?thesis
    using formatMessage_detailed [of lit_json "\<lparr>Topic = ''t'', Payload = '' [ true ]''\<rparr>"]
      formatMessage_detailed [of lit_json "\<lparr>Topic = ''t'', Payload = ''{x''\<rparr>"]
      lit_json_roundtrip digits
    by (auto simp: lit_json_def unmarshal_examples)
qed

section \<open>Properties of start-up\<close>

lemma start_brokers_unfold:
  "start_brokers g lib w i bs (events, connections) =
     (events @ concat (map (\<lambda>(k, b). fst (start_broker g lib w k b)) (enumerate i bs)),
      connections @ List.map_filter (\<lambda>(k, b). snd (start_broker g lib w k b)) (enumerate i bs))"
proof (induction bs arbitrary: i events connections)
  case Nil
  show ?case by (simp add: enumerate_simps List.map_filter_simps)
next
  case (Cons b bs)
  show ?case
    by (simp add: enumerate_simps Cons.IH List.map_filter_simps split: prod.splits option.splits)
qed

lemma snd_start_broker:
  "snd (start_broker g lib w i b) =
     (if connects w i b
      then Some \<lparr>Config = b, Client = client_options w i b,
                 conn_OutputFile = snd (open_output_file g lib w i b)\<rparr>
      else None)"
  by (simp add: start_broker_def connects_def Let_def split: prod.splits option.splits)

lemma map_filter_sessions:
  "List.map_filter (\<lambda>(k, b). snd (start_broker g lib w k b)) xs =
     map (\<lambda>(k, b). \<lparr>Config = b, Client = client_options w k b,
                      conn_OutputFile = snd (open_output_file g lib w k b)\<rparr>)
       (filter (\<lambda>(k, b). connects w k b) xs)"
  by (induction xs) (auto simp: List.map_filter_simps snd_start_broker)

lemma logger_main_globals: "logger (main_globals cfg)"
  by (simp add: main_globals_def SetDetailed_def InitLogger_def)

lemma main_with_cases:
  "main_with lib w cfg =
     (let g = main_globals cfg;
          events = main_banner cfg @ loop_events g lib w (Brokers cfg);
          connections =
            map (\<lambda>(k, b). \<lparr>Config = b, Client = client_options w k b,
                             conn_OutputFile = snd (open_output_file g lib w k b)\<rparr>)
              (connected_targets w (Brokers cfg))
      in if Brokers cfg = []
         then Exited (main_banner cfg
                @ [Log FatalLevel (emoji_cross @ '' No brokers configured'') [], os_Exit 1])
         else if connections = []
         then Exited (events
                @ [Log FatalLevel (emoji_cross @ '' No successful broker connections'') [],
                   os_Exit 1])
         else Listening
                (events
                  @ [Log InfoLevel (Repeat box_dash 80) [],
                     Log InfoLevel (emoji_ear @ '' Listening for messages from ''
                                    @ fmt_d (length connections)
                                    @ '' broker(s)... (Press Ctrl+C to exit)'') [],
                     Log InfoLevel (Repeat box_dash 80) []])
                connections)"
  using logger_main_globals [of cfg]
  by (simp add: main_with_def main_globals_def [symmetric] Let_def Info_def Fatal_def
      start_brokers_unfold map_filter_sessions connected_targets_def main_banner_def
      loop_events_def)

lemma main_events_shape:
  assumes "Brokers cfg \<noteq> []"
  shows "\<exists>tail. outcome_events (main_with lib w cfg)
           = main_banner cfg @ loop_events (main_globals cfg) lib w (Brokers cfg) @ tail"
proof (cases "connected_targets w (Brokers cfg) = []")
  case True
  with assms have "outcome_events (main_with lib w cfg)
      = main_banner cfg @ loop_events (main_globals cfg) lib w (Brokers cfg)
        @ [Log FatalLevel (emoji_cross @ '' No successful broker connections'') [], os_Exit 1]"
    by (simp add: main_with_cases Let_def)
  then show ?thesis by blast
next
  case False
  with assms have "outcome_events (main_with lib w cfg)
      = main_banner cfg @ loop_events (main_globals cfg) lib w (Brokers cfg)
        @ [Log InfoLevel (Repeat box_dash 80) [],
           Log InfoLevel (emoji_ear @ '' Listening for messages from ''
             @ fmt_d (length (connected_targets w (Brokers cfg)))
             @ '' broker(s)... (Press Ctrl+C to exit)'') [],
           Log InfoLevel (Repeat box_dash 80) []]"
    by (simp add: main_with_cases Let_def)
  then show ?thesis by blast
qed

lemma connected_example:
  "connected_targets example_world (Brokers example_config)
     = [(0, example_broker ''a'' [''x'', ''y''] ''a.log''), (2, example_broker ''c'' [''z''] '''')]"
  by (simp add: connected_targets_def example_config_def example_world_def connects_def
      token_failed_def ok_token_def failed_token_def)

lemma connected_offline:
  "connected_targets offline_world (Brokers example_config) = []"
  by (simp add: connected_targets_def example_config_def offline_world_def example_world_def
      connects_def token_failed_def ok_token_def failed_token_def)

text \<open>
  C1. Let the connected targets be the configured brokers, in order, whose connect
  attempt does not fail (\<open>K\<close> configured, \<open>J\<close> connected). If there is at least one,
  \<open>main\<close> reaches the listening state, and its connections are exactly the connected
  targets, in order, \<open>J\<close> of them. If there is none (also when nothing is configured),
  \<open>main\<close> ends in \<open>logger.Fatal\<close>: the last two events are the fatal entry and the exit,
  and the listening state is not reached.
\<close>

theorem startup_sessions:
  "(connected_targets w (Brokers cfg) \<noteq> [] \<longrightarrow>
      (\<exists>events connections.
         main_with lib w cfg = Listening events connections
       \<and> map Config connections = map snd (connected_targets w (Brokers cfg))
       \<and> length connections = length (connected_targets w (Brokers cfg))))
   \<and> (connected_targets w (Brokers cfg) = [] \<longrightarrow>
      (\<exists>events msg.
         main_with lib w cfg = Exited (events @ [Log FatalLevel msg [], os_Exit 1]))
       \<and> (\<forall>events connections. main_with lib w cfg \<noteq> Listening events connections))"
proof (cases "connected_targets w (Brokers cfg) = []")
  case True
  have "\<exists>events msg. main_with lib w cfg = Exited (events @ [Log FatalLevel msg [], os_Exit 1])"
  proof (cases "Brokers cfg = []")
    case no_brokers: True
    then show ?thesis
      by (simp add: main_with_cases Let_def)
  next
    case False
    with True show ?thesis
      by (simp add: main_with_cases Let_def)
  qed
  with True show ?thesis by auto
next
  case False
  then have "Brokers cfg \<noteq> []"
    by (auto simp: connected_targets_def)
  with False show ?thesis
    by (simp add: main_with_cases Let_def comp_def case_prod_unfold)
qed

theorem startup_sessions_witness:
  "connected_targets example_world (Brokers example_config) \<noteq> []
   \<and> (\<exists>events connections.
         main_with simple_lib example_world example_config = Listening events connections
       \<and> map Config connections
           = [example_broker ''a'' [''x'', ''y''] ''a.log'', example_broker ''c'' [''z''] '''']
       \<and> length connections = 2)
   \<and> connected_targets offline_world (Brokers example_config) = []
   \<and> (\<exists>events msg.
         main_with simple_lib offline_world example_config
           = Exited (events @ [Log FatalLevel msg [], os_Exit 1]))"
  using startup_sessions [of example_world example_config simple_lib]
    startup_sessions [of offline_world example_config simple_lib]
  by (simp add: connected_example connected_offline numeral_2_eq_2)

lemma concat_map_nth_split:
  assumes "k < length xs"
  shows "\<exists>pre post. concat (map f xs) = pre @ f (xs ! k) @ post"
proof -
  have "xs = take k xs @ xs ! k # drop (Suc k) xs"
    using assms by (simp add: id_take_nth_drop)
  then have "concat (map f xs)
      = concat (map f (take k xs)) @ f (xs ! k) @ concat (map f (drop (Suc k) xs))"
    by (metis concat.simps(2) concat_append list.simps(9) map_append)
  then show ?thesis by blast
qed

lemma outcome_connections_main:
  "outcome_connections (main_with lib w cfg)
     = map (new_connection (main_globals cfg) lib w) (connected_targets w (Brokers cfg))"
proof -
  have "(\<lambda>(k, b). \<lparr>Config = b, Client = client_options w k b,
            conn_OutputFile = snd (open_output_file (main_globals cfg) lib w k b)\<rparr>)
        = new_connection (main_globals cfg) lib w"
    by (auto simp: new_connection_def)
  moreover have "Brokers cfg = [] \<Longrightarrow> connected_targets w (Brokers cfg) = []"
    by (simp add: connected_targets_def)
  ultimately show ?thesis
    by (auto simp: main_with_cases Let_def)
qed

lemma main_events_target:
  assumes "k < length (Brokers cfg)"
  shows "\<exists>pre post. outcome_events (main_with lib w cfg)
           = pre @ fst (start_broker (main_globals cfg) lib w k (Brokers cfg ! k)) @ post"
proof -
  let ?f = "\<lambda>(k, b). fst (start_broker (main_globals cfg) lib w k b)"
  have k: "k < length (enumerate 0 (Brokers cfg))"
    using assms by simp
  have "enumerate 0 (Brokers cfg) ! k = (k, Brokers cfg ! k)"
    using assms by (simp add: nth_enumerate_eq)
  with concat_map_nth_split [OF k, of ?f]
  obtain pre post where split:
    "loop_events (main_globals cfg) lib w (Brokers cfg)
       = pre @ fst (start_broker (main_globals cfg) lib w k (Brokers cfg ! k)) @ post"
    by (auto simp: loop_events_def)
  have ne: "Brokers cfg \<noteq> []"
    using assms by auto
  obtain tail where
    "outcome_events (main_with lib w cfg)
       = main_banner cfg @ loop_events (main_globals cfg) lib w (Brokers cfg) @ tail"
    using main_events_shape [OF ne] by blast
  with split have "outcome_events (main_with lib w cfg)
       = (main_banner cfg @ pre) @ fst (start_broker (main_globals cfg) lib w k (Brokers cfg ! k))
          @ (post @ tail)"
    by simp
  then show ?thesis by blast
qed

lemma start_broker_failed:
  assumes "token_failed (Connect w i (client_options w i b)) = Some err" and "logger g"
  shows "start_broker g lib w i b =
           (fst (open_output_file g lib w i b)
              @ [Log InfoLevel (emoji_plug @ '' Connecting to Broker '' @ fmt_d (i + 1) @ '': ''
                                @ broker_addr b @ ''...'') [],
                 client_Connect i,
                 Log ErrorLevel (emoji_cross @ '' Failed to connect'')
                   [zap_Int ''broker'' (i + 1), zap_String ''address'' (broker_addr b),
                    zap_Error err]]
              @ (case snd (open_output_file g lib w i b) of
                   Some f \<Rightarrow> [file_Close f] | None \<Rightarrow> []),
            None)"
  using assms
  by (simp add: start_broker_def Let_def Info_def Error_def split: prod.splits)

lemma start_broker_connected:
  assumes "connects w i b" and "logger g"
  shows "start_broker g lib w i b =
           (fst (open_output_file g lib w i b)
              @ [Log InfoLevel (emoji_plug @ '' Connecting to Broker '' @ fmt_d (i + 1) @ '': ''
                                @ broker_addr b @ ''...'') [],
                 client_Connect i]
              @ subscribe_topics g w i 0 (Topics b),
            Some (new_connection g lib w (i, b)))"
  using assms
  by (simp add: start_broker_def connects_def Let_def Info_def new_connection_def
      split: prod.splits)

lemma subscribe_topics_entries:
  "logger g \<Longrightarrow>
   subscribe_topics g w i j topics
     = concat (map (\<lambda>jt. [client_Subscribe i (snd jt), subscribe_entry w i jt])
         (enumerate j topics))"
  by (induction topics arbitrary: j)
    (simp_all add: subscribe_entry_def Info_def Error_def split: option.splits)

lemma in_connected_targets:
  "(k, b) \<in> set (connected_targets w bs) \<longleftrightarrow> k < length bs \<and> b = bs ! k \<and> connects w k b"
  by (auto simp: connected_targets_def in_set_enumerate_eq)

lemma open_example_1:
  "open_output_file g simple_lib example_world (Suc 0) (example_broker ''b'' [''#''] ''b.log'')
     = ([os_MkdirAll ''logs'', os_OpenFile ''logs/b.log'']
          @ Info g (emoji_memo @ '' Broker '' @ fmt_d 2 @ '': Logging to file: '' @ ''logs/b.log'') [],
        Some 4)"
  by (simp add: open_output_file_def output_path_def example_broker_def simple_lib_def
      slash_IsAbs_def slash_Dir_def slash_Join_def example_world_def Let_def numeral_2_eq_2)

text \<open>
  C2. Let the connect attempt of the broker with index \<open>k\<close> fail with error \<open>err\<close>.
  Then the events of \<open>main\<close> contain, one after the other, the connect call, the error
  entry (broker number \<open>k + 1\<close>, address, \<open>err\<close>) and, when an output file was opened
  for this broker, the close of that file; index \<open>k\<close> is not among the connected
  targets, which are what the connections are built from; and the loop goes on: for every
  configured broker \<open>k'\<close> the events of its whole loop body are part of the events of
  \<open>main\<close>.
\<close>

theorem connect_failure_isolated:
  assumes "k < length (Brokers cfg)"
    and "token_failed (Connect w k (client_options w k (Brokers cfg ! k))) = Some err"
  shows "(\<exists>pre post. outcome_events (main_with lib w cfg) =
            pre @ [client_Connect k,
                   Log ErrorLevel (emoji_cross @ '' Failed to connect'')
                     [zap_Int ''broker'' (k + 1),
                      zap_String ''address'' (broker_addr (Brokers cfg ! k)), zap_Error err]]
                @ (case snd (open_output_file (main_globals cfg) lib w k (Brokers cfg ! k)) of
                     Some f \<Rightarrow> [file_Close f] | None \<Rightarrow> [])
                @ post)
       \<and> outcome_connections (main_with lib w cfg)
           = map (new_connection (main_globals cfg) lib w) (connected_targets w (Brokers cfg))
       \<and> k \<notin> fst ` set (connected_targets w (Brokers cfg))
       \<and> (\<forall>k' < length (Brokers cfg).
            \<exists>pre post. outcome_events (main_with lib w cfg)
              = pre @ fst (start_broker (main_globals cfg) lib w k' (Brokers cfg ! k')) @ post)"
proof -
  let ?g = "main_globals cfg" and ?b = "Brokers cfg ! k"
  obtain pre post where
    "outcome_events (main_with lib w cfg) = pre @ fst (start_broker ?g lib w k ?b) @ post"
    using main_events_target [OF assms(1)] by blast
  then have "outcome_events (main_with lib w cfg) =
      (pre @ fst (open_output_file ?g lib w k ?b)
         @ [Log InfoLevel (emoji_plug @ '' Connecting to Broker '' @ fmt_d (k + 1) @ '': ''
                                @ broker_addr ?b @ ''...'') []])
      @ [client_Connect k,
         Log ErrorLevel (emoji_cross @ '' Failed to connect'')
           [zap_Int ''broker'' (k + 1), zap_String ''address'' (broker_addr ?b), zap_Error err]]
      @ (case snd (open_output_file ?g lib w k ?b) of Some f \<Rightarrow> [file_Close f] | None \<Rightarrow> [])
      @ post"
    by (simp add: start_broker_failed [OF assms(2) logger_main_globals])
  then have logged: "\<exists>pre post. outcome_events (main_with lib w cfg) =
      pre @ [client_Connect k,
         Log ErrorLevel (emoji_cross @ '' Failed to connect'')
           [zap_Int ''broker'' (k + 1), zap_String ''address'' (broker_addr ?b), zap_Error err]]
      @ (case snd (open_output_file ?g lib w k ?b) of Some f \<Rightarrow> [file_Close f] | None \<Rightarrow> [])
      @ post"
    by blast
  have "\<not> connects w k ?b"
    using assms(2) by (simp add: connects_def)
  then have excluded: "k \<notin> fst ` set (connected_targets w (Brokers cfg))"
    by (auto simp: in_connected_targets)
  from logged excluded show ?thesis
    using outcome_connections_main main_events_target by blast
qed

theorem connect_failure_isolated_witness:
  "(1::nat) < length (Brokers example_config)
   \<and> token_failed (Connect example_world 1
        (client_options example_world 1 (Brokers example_config ! 1))) = Some ''connection refused''
   \<and> (\<exists>pre post. outcome_events (main_with simple_lib example_world example_config) =
         pre @ [client_Connect 1,
                Log ErrorLevel (emoji_cross @ '' Failed to connect'')
                  [zap_Int ''broker'' 2, zap_String ''address'' ''b:1883'',
                   zap_Error ''connection refused''],
                file_Close 4]
             @ post)
   \<and> 1 \<notin> fst ` set (connected_targets example_world (Brokers example_config))"
proof -
  have 1: "(1::nat) < length (Brokers example_config)"
    by (simp add: example_config_def)
  have 2: "token_failed (Connect example_world 1
        (client_options example_world 1 (Brokers example_config ! 1))) = Some ''connection refused''"
    by (simp add: example_world_def token_failed_def failed_token_def)
  have 3: "Brokers example_config ! Suc 0 = example_broker ''b'' [''#''] ''b.log''"
    by (simp add: example_config_def)
  have 4: "broker_addr (example_broker ''b'' [''#''] ''b.log'') = ''b:1883''"
    by (simp add: broker_addr_def example_broker_def)
  show ?thesis
    using connect_failure_isolated [OF 1 2, of simple_lib] 1 2
    by (simp add: 3 4 open_example_1 numeral_2_eq_2)
qed

lemma client_options_cong:
  "Now_Unix w' = Now_Unix w \<Longrightarrow> client_options w' i b = client_options w i b"
  by (simp add: client_options_def)

lemma connected_targets_cong:
  assumes "Now_Unix w' = Now_Unix w" and "Connect w' = Connect w"
  shows "connected_targets w' bs = connected_targets w bs"
  using assms by (simp add: connected_targets_def connects_def client_options_def)

lemma open_output_file_cong:
  assumes "MkdirAll w' = MkdirAll w" and "OpenFile w' = OpenFile w"
  shows "open_output_file g lib w' i b = open_output_file g lib w i b"
  using assms by (simp add: open_output_file_def Let_def cong: sum.case_cong)

lemma connected_targets_Subscribe [simp]:
  "connected_targets (w\<lparr>Subscribe := s\<rparr>) bs = connected_targets w bs"
  by (rule connected_targets_cong) simp_all

lemma new_connection_Subscribe [simp]:
  "new_connection g lib (w\<lparr>Subscribe := s\<rparr>) = new_connection g lib w"
  by (rule ext)
    (simp add: new_connection_def client_options_cong [of "w\<lparr>Subscribe := s\<rparr>" w]
      open_output_file_cong [of "w\<lparr>Subscribe := s\<rparr>" w])

text \<open>
  C7. Let the broker with index \<open>k\<close> connect. Then \<open>main\<close> reaches the listening
  state and the connection of broker \<open>k\<close> is among its connections; the events contain,
  for the topics of the broker in order, the subscribe call and one entry each (the
  subscribe loop runs to its end whatever the results); a topic whose subscribe fails
  with \<open>err\<close> has its own error entry with the broker number, the topic and \<open>err\<close>; and
  the connections of \<open>main\<close> are the same whatever results the subscribe calls have, so
  a session stays even when all of its subscribes fail.
\<close>

theorem subscribe_failures_isolated:
  assumes "k < length (Brokers cfg)" and "connects w k (Brokers cfg ! k)"
  shows "(\<exists>events connections.
            main_with lib w cfg = Listening events connections
          \<and> new_connection (main_globals cfg) lib w (k, Brokers cfg ! k) \<in> set connections
          \<and> (\<exists>pre post. events =
                pre @ concat (map (\<lambda>jt. [client_Subscribe k (snd jt), subscribe_entry w k jt])
                               (enumerate 0 (Topics (Brokers cfg ! k)))) @ post)
          \<and> (\<forall>j err. j < length (Topics (Brokers cfg ! k))
                \<and> token_failed (Subscribe w k j (Topics (Brokers cfg ! k) ! j)) = Some err
                \<longrightarrow> Log ErrorLevel (emoji_cross @ '' Failed to subscribe'')
                      [zap_Int ''broker'' (k + 1),
                       zap_String ''topic'' (Topics (Brokers cfg ! k) ! j), zap_Error err]
                    \<in> set events))
       \<and> (\<forall>s. outcome_connections (main_with lib (w\<lparr>Subscribe := s\<rparr>) cfg)
                = outcome_connections (main_with lib w cfg))"
proof -
  let ?g = "main_globals cfg" and ?b = "Brokers cfg ! k"
  let ?subs = "concat (map (\<lambda>jt. [client_Subscribe k (snd jt), subscribe_entry w k jt])
                 (enumerate 0 (Topics ?b)))"
  have target: "(k, ?b) \<in> set (connected_targets w (Brokers cfg))"
    using assms by (simp add: in_connected_targets)
  then have "connected_targets w (Brokers cfg) \<noteq> []"
    by auto
  moreover have "Brokers cfg \<noteq> []"
    using assms(1) by auto
  ultimately obtain events connections where
    run: "main_with lib w cfg = Listening events connections"
    by (simp add: main_with_cases Let_def)
  have "connections = map (new_connection ?g lib w) (connected_targets w (Brokers cfg))"
    using outcome_connections_main [of lib w cfg] run by simp
  with target have member: "new_connection ?g lib w (k, ?b) \<in> set connections"
    by auto
  obtain pre post where
    "events = pre @ fst (start_broker ?g lib w k ?b) @ post"
    using main_events_target [OF assms(1), of lib w] run by auto
  then have split: "events =
      (pre @ fst (open_output_file ?g lib w k ?b)
         @ [Log InfoLevel (emoji_plug @ '' Connecting to Broker '' @ fmt_d (k + 1) @ '': ''
                           @ broker_addr ?b @ ''...'') [],
            client_Connect k])
      @ ?subs @ post"
    by (simp add: start_broker_connected [OF assms(2) logger_main_globals]
        subscribe_topics_entries [OF logger_main_globals])
  then have block: "\<exists>pre post. events = pre @ ?subs @ post"
    by blast
  have entries: "Log ErrorLevel (emoji_cross @ '' Failed to subscribe'')
          [zap_Int ''broker'' (k + 1), zap_String ''topic'' (Topics ?b ! j), zap_Error err]
        \<in> set events"
    if "j < length (Topics ?b)" "token_failed (Subscribe w k j (Topics ?b ! j)) = Some err"
    for j err
  proof -
    have "(j, Topics ?b ! j) \<in> set (enumerate 0 (Topics ?b))"
      using that(1) by (simp add: in_set_enumerate_eq)
    moreover have "subscribe_entry w k (j, Topics ?b ! j)
        = Log ErrorLevel (emoji_cross @ '' Failed to subscribe'')
            [zap_Int ''broker'' (k + 1), zap_String ''topic'' (Topics ?b ! j), zap_Error err]"
      using that(2) by (simp add: subscribe_entry_def)
    ultimately have "Log ErrorLevel (emoji_cross @ '' Failed to subscribe'')
          [zap_Int ''broker'' (k + 1), zap_String ''topic'' (Topics ?b ! j), zap_Error err]
        \<in> set ?subs"
      by force
    then show ?thesis
      by (subst split) simp
  qed
  have "outcome_connections (main_with lib (w\<lparr>Subscribe := s\<rparr>) cfg)
          = outcome_connections (main_with lib w cfg)" for s
    by (simp add: outcome_connections_main)
  with run member block entries show ?thesis
    by simp
qed

lemma connects_example_0:
  "connects example_world 0 (Brokers example_config ! 0)"
  by (simp add: connects_def example_world_def token_failed_def ok_token_def)

theorem subscribe_failures_isolated_witness:
  "(0::nat) < length (Brokers example_config)
   \<and> connects example_world 0 (Brokers example_config ! 0)
   \<and> Topics (Brokers example_config ! 0) = [''x'', ''y'']
   \<and> token_failed (Subscribe example_world 0 1 ''y'') = Some ''not authorized''
   \<and> (\<exists>events connections.
         main_with simple_lib example_world example_config = Listening events connections
       \<and> new_connection (main_globals example_config) simple_lib example_world
            (0, Brokers example_config ! 0) \<in> set connections
       \<and> Log ErrorLevel (emoji_cross @ '' Failed to subscribe'')
            [zap_Int ''broker'' 1, zap_String ''topic'' ''y'', zap_Error ''not authorized'']
          \<in> set events)"
proof -
  have 1: "(0::nat) < length (Brokers example_config)"
    by (simp add: example_config_def)
  have 2: "Topics (Brokers example_config ! 0) = [''x'', ''y'']"
    by (simp add: example_config_def example_broker_def)
  have 3: "token_failed (Subscribe example_world 0 1 ''y'') = Some ''not authorized''"
    by (simp add: example_world_def token_failed_def failed_token_def)
  obtain events connections where run:
    "main_with simple_lib example_world example_config = Listening events connections"
    "new_connection (main_globals example_config) simple_lib example_world
       (0, Brokers example_config ! 0) \<in> set connections"
    and entries: "\<forall>j err. j < length (Topics (Brokers example_config ! 0))
          \<and> token_failed (Subscribe example_world 0 j
                (Topics (Brokers example_config ! 0) ! j)) = Some err
          \<longrightarrow> Log ErrorLevel (emoji_cross @ '' Failed to subscribe'')
                [zap_Int ''broker'' (0 + 1),
                 zap_String ''topic'' (Topics (Brokers example_config ! 0) ! j), zap_Error err]
              \<in> set events"
    using subscribe_failures_isolated [OF 1 connects_example_0, of simple_lib] by blast
  from entries [rule_format, of 1 "''not authorized''"] 2 3
  have "Log ErrorLevel (emoji_cross @ '' Failed to subscribe'')
          [zap_Int ''broker'' 1, zap_String ''topic'' ''y'', zap_Error ''not authorized'']
        \<in> set events"
    by simp
  with run 1 2 3 connects_example_0 show ?thesis
    by blast
qed

text \<open>
  C8, as the code has it. Let the broker with index \<open>k\<close> have an output file configured.
  The path is put under \<open>logs\<close> when it is not absolute and its directory is \<open>.\<close>.
  The events of \<open>main\<close> contain, one after the other: the \<open>MkdirAll\<close> call for the
  directory of the resulting path (unless that directory is \<open>.\<close> or empty), with an error
  entry when it fails; the \<open>OpenFile\<close> call, made whether or not the directory could be
  created, with an error entry when it fails; and then the connect attempt of the broker.
  The connection has an output file exactly when \<open>OpenFile\<close> succeeded: a failed open
  leaves console output only. The connected targets, and with them whether \<open>main\<close>
  reaches the listening state, do not depend on the results of \<open>MkdirAll\<close> and
  \<open>OpenFile\<close>.
\<close>

theorem output_file_setup:
  assumes "k < length (Brokers cfg)" and "OutputFile (Brokers cfg ! k) \<noteq> ''''"
  shows "let b = Brokers cfg ! k;
             g = main_globals cfg;
             path = output_path lib (OutputFile b);
             dir = Dir lib path
         in (\<not> IsAbs lib (OutputFile b) \<and> Dir lib (OutputFile b) = ''.''
               \<longrightarrow> path = Join lib ''logs'' (OutputFile b))
          \<and> (\<exists>pre post. outcome_events (main_with lib w cfg) =
                pre
                @ (if dir \<noteq> ''.'' \<and> dir \<noteq> '''' then
                     os_MkdirAll dir #
                     (case MkdirAll w k dir of
                        Some err \<Rightarrow>
                          [Log ErrorLevel (emoji_cross @ '' Failed to create log directory'')
                             [zap_String ''dir'' dir, zap_Error err]]
                      | None \<Rightarrow> [])
                   else [])
                @ [os_OpenFile path,
                   case OpenFile w k path of
                     Inl err \<Rightarrow>
                       Log ErrorLevel (emoji_cross @ '' Failed to open output file'')
                         [zap_String ''file'' path, zap_Error err]
                   | Inr f \<Rightarrow>
                       Log InfoLevel (emoji_memo @ '' Broker '' @ fmt_d (k + 1)
                                      @ '': Logging to file: '' @ path) [],
                   Log InfoLevel (emoji_plug @ '' Connecting to Broker '' @ fmt_d (k + 1)
                                  @ '': '' @ broker_addr b @ ''...'') [],
                   client_Connect k]
                @ post)
          \<and> conn_OutputFile (new_connection g lib w (k, b))
               = (case OpenFile w k path of Inl err \<Rightarrow> None | Inr f \<Rightarrow> Some f)
          \<and> (\<forall>m opn. connected_targets (w\<lparr>MkdirAll := m, OpenFile := opn\<rparr>) (Brokers cfg)
                        = connected_targets w (Brokers cfg)
                    \<and> map Config (outcome_connections
                          (main_with lib (w\<lparr>MkdirAll := m, OpenFile := opn\<rparr>) cfg))
                        = map Config (outcome_connections (main_with lib w cfg)))"
proof -
  let ?b = "Brokers cfg ! k" and ?g = "main_globals cfg"
  let ?path = "output_path lib (OutputFile ?b)"
  let ?dir = "Dir lib ?path"
  let ?mk = "if ?dir \<noteq> ''.'' \<and> ?dir \<noteq> '''' then
               os_MkdirAll ?dir #
               (case MkdirAll w k ?dir of
                  Some err \<Rightarrow>
                    [Log ErrorLevel (emoji_cross @ '' Failed to create log directory'')
                       [zap_String ''dir'' ?dir, zap_Error err]]
                | None \<Rightarrow> [])
             else []"
  let ?entry = "case OpenFile w k ?path of
                  Inl err \<Rightarrow>
                    Log ErrorLevel (emoji_cross @ '' Failed to open output file'')
                      [zap_String ''file'' ?path, zap_Error err]
                | Inr f \<Rightarrow>
                    Log InfoLevel (emoji_memo @ '' Broker '' @ fmt_d (k + 1)
                                   @ '': Logging to file: '' @ ?path) []"
  let ?connecting = "Log InfoLevel (emoji_plug @ '' Connecting to Broker '' @ fmt_d (k + 1)
                                  @ '': '' @ broker_addr ?b @ ''...'') []"
  have lg: "logger ?g"
    by (rule logger_main_globals)
  have opened: "open_output_file ?g lib w k ?b
      = (?mk @ [os_OpenFile ?path, ?entry],
         case OpenFile w k ?path of Inl err \<Rightarrow> None | Inr f \<Rightarrow> Some f)"
    using assms(2) lg
    by (simp add: open_output_file_def Let_def Info_def Error_def
        split: sum.splits option.splits)
  have rerooted: "\<not> IsAbs lib (OutputFile ?b) \<and> Dir lib (OutputFile ?b) = ''.''
      \<longrightarrow> ?path = Join lib ''logs'' (OutputFile ?b)"
    by (simp add: output_path_def)
  have "\<exists>rest. fst (start_broker ?g lib w k ?b)
      = ?mk @ [os_OpenFile ?path, ?entry, ?connecting, client_Connect k] @ rest"
  proof (cases "token_failed (Connect w k (client_options w k ?b))")
    case None
    then have "connects w k ?b"
      by (simp add: connects_def)
    from start_broker_connected [OF this lg, of lib] show ?thesis
      by (simp add: opened)
  next
    case (Some err)
    from start_broker_failed [OF this lg, of lib] show ?thesis
      by (simp add: opened)
  qed
  then obtain rest where body: "fst (start_broker ?g lib w k ?b)
      = ?mk @ [os_OpenFile ?path, ?entry, ?connecting, client_Connect k] @ rest"
    by blast
  obtain pre post where
    "outcome_events (main_with lib w cfg) = pre @ fst (start_broker ?g lib w k ?b) @ post"
    using main_events_target [OF assms(1)] by blast
  then have "outcome_events (main_with lib w cfg)
      = pre @ ?mk @ [os_OpenFile ?path, ?entry, ?connecting, client_Connect k] @ (rest @ post)"
    by (simp add: body)
  then have events: "\<exists>pre post. outcome_events (main_with lib w cfg)
      = pre @ ?mk @ [os_OpenFile ?path, ?entry, ?connecting, client_Connect k] @ post"
    by blast
  have sink: "conn_OutputFile (new_connection ?g lib w (k, ?b))
      = (case OpenFile w k ?path of Inl err \<Rightarrow> None | Inr f \<Rightarrow> Some f)"
    by (simp add: new_connection_def opened)
  have same: "connected_targets (w\<lparr>MkdirAll := m, OpenFile := opn\<rparr>) (Brokers cfg)
      = connected_targets w (Brokers cfg)" for m opn
    by (rule connected_targets_cong) simp_all
  have "map Config (outcome_connections (main_with lib (w\<lparr>MkdirAll := m, OpenFile := opn\<rparr>) cfg))
      = map Config (outcome_connections (main_with lib w cfg))" for m opn
    by (simp add: outcome_connections_main same new_connection_def comp_def)
  with rerooted events sink same show ?thesis
    unfolding Let_def by blast
qed

lemma example_paths:
  "output_path simple_lib ''a.log'' = ''logs/a.log''"
  "Dir simple_lib ''logs/a.log'' = ''logs''"
  by (simp_all add: output_path_def simple_lib_def slash_IsAbs_def slash_Dir_def slash_Join_def)

theorem output_file_setup_witness:
  "(0::nat) < length (Brokers example_config)
   \<and> OutputFile (Brokers example_config ! 0) = ''a.log''
   \<and> output_path simple_lib ''a.log'' = ''logs/a.log''
   \<and> (\<exists>pre post. outcome_events (main_with simple_lib mkdir_fails_world example_config) =
         pre
         @ [os_MkdirAll ''logs'',
            Log ErrorLevel (emoji_cross @ '' Failed to create log directory'')
              [zap_String ''dir'' ''logs'', zap_Error ''permission denied''],
            os_OpenFile ''logs/a.log'',
            Log InfoLevel (emoji_memo @ '' Broker '' @ fmt_d 1
                           @ '': Logging to file: '' @ ''logs/a.log'') [],
            Log InfoLevel (emoji_plug @ '' Connecting to Broker '' @ fmt_d 1
                           @ '': '' @ ''a:1883'' @ ''...'') [],
            client_Connect 0]
         @ post)"
proof -
  have 1: "(0::nat) < length (Brokers example_config)"
    by (simp add: example_config_def)
  have 2: "OutputFile (Brokers example_config ! 0) = ''a.log''"
    by (simp add: example_config_def example_broker_def)
  then have 3: "OutputFile (Brokers example_config ! 0) \<noteq> ''''"
    by simp
  have 4: "broker_addr (Brokers example_config ! 0) = ''a:1883''"
    by (simp add: example_config_def example_broker_def broker_addr_def)
  have 5: "MkdirAll mkdir_fails_world 0 ''logs'' = Some ''permission denied''"
    "OpenFile mkdir_fails_world 0 ''logs/a.log'' = Inr 3"
    by (simp_all add: mkdir_fails_world_def example_world_def)
  show ?thesis
    using output_file_setup [OF 1 3, of simple_lib mkdir_fails_world] 1
    by (simp add: Let_def 2 4 5 example_paths)
qed

text \<open>
  The statement of C8 itself fails where it says that a failure to create the directory
  leaves console output only. In \<open>mkdir_fails_world\<close> the directory \<open>logs\<close> of the first
  broker's output file cannot be created, the open succeeds all the same, and the
  session of that broker runs with the output file \<open>3\<close>.
\<close>

theorem output_file_console_only_counterexample:
  "MkdirAll mkdir_fails_world 0 (Dir simple_lib (output_path simple_lib ''a.log''))
     = Some ''permission denied''
   \<and> map conn_OutputFile
        (outcome_connections (main_with simple_lib mkdir_fails_world example_config))
     = [Some 3, None]"
proof -
  have "connected_targets mkdir_fails_world (Brokers example_config)
      = connected_targets example_world (Brokers example_config)"
    unfolding mkdir_fails_world_def by (rule connected_targets_cong) simp_all
  then have ct: "connected_targets mkdir_fails_world (Brokers example_config)
      = [(0, example_broker ''a'' [''x'', ''y''] ''a.log''), (2, example_broker ''c'' [''z''] '''')]"
    by (simp add: connected_example)
  have f0: "snd (open_output_file g simple_lib mkdir_fails_world 0
      (example_broker ''a'' [''x'', ''y''] ''a.log'')) = Some 3" for g
    by (simp add: open_output_file_def example_paths example_broker_def Let_def
        mkdir_fails_world_def example_world_def)
  have f2: "snd (open_output_file g simple_lib mkdir_fails_world 2
      (example_broker ''c'' [''z''] '''')) = None" for g
    by (simp add: open_output_file_def example_broker_def)
  have mk: "MkdirAll mkdir_fails_world 0 ''logs'' = Some ''permission denied''"
    by (simp add: mkdir_fails_world_def example_world_def)
  show ?thesis
    by (simp add: outcome_connections_main ct new_connection_def f0 f2 example_paths mk)
qed

section \<open>Properties of the message handler\<close>

lemma handler_events:
  "fst (createMessageHandler lib g io broker brokerIndex msg files)
     = Info g (''[Broker '' @ fmt_d (brokerIndex + 1) @ '': '' @ broker_addr (Config broker)
               @ ''] '' @ formatMessage lib msg (detailed g)) []"
  by (simp add: createMessageHandler_def Let_def broker_addr_def IsDetailed_def
      split: option.splits prod.splits)

lemma handler_files:
  assumes "conn_OutputFile broker = Some f"
  shows "snd (createMessageHandler lib g io broker brokerIndex msg files)
     = files(f := fst (Sync io (fst (WriteString io
                 (file_line lib g io broker brokerIndex msg) (files f)))))"
  using assms
  by (simp add: createMessageHandler_def Let_def broker_addr_def IsDetailed_def file_line_def
      split: prod.splits)

text \<open>
  C5, as the code has it. Let the session have an output file \<open>f\<close>. The handler writes
  the complete line (the full date-time stamp in brackets, the session tag, the formatted
  message, a line feed) and then syncs the file. When the write reports the whole line
  written without error and the sync reports no error, the line is on storage when the
  handler returns, after everything written before. In every case the handler's events
  are the one console entry (none when the logger is unset), which does not depend on
  what the write and the sync return: their results are discarded, and the handler has
  no result of its own to report them in. Other files are left as they were.
\<close>

theorem file_sink_write:
  assumes "conn_OutputFile broker = Some f"
  shows "(WriteString_result io (file_line lib g io broker brokerIndex msg)
            = (length (file_line lib g io broker brokerIndex msg), None)
          \<and> Sync_result io = None
          \<longrightarrow> snd (createMessageHandler lib g io broker brokerIndex msg files) f
              = \<lparr>on_storage = on_storage (files f) @ unsynced (files f)
                                @ file_line lib g io broker brokerIndex msg,
                 unsynced = []\<rparr>)
       \<and> fst (createMessageHandler lib g io broker brokerIndex msg files)
           = Info g (''[Broker '' @ fmt_d (brokerIndex + 1) @ '': ''
                     @ broker_addr (Config broker) @ ''] ''
                     @ formatMessage lib msg (detailed g)) []
       \<and> (\<forall>wr sy. fst (createMessageHandler lib g
                          (io\<lparr>WriteString_result := wr, Sync_result := sy\<rparr>)
                          broker brokerIndex msg files)
                   = fst (createMessageHandler lib g io broker brokerIndex msg files))
       \<and> (\<forall>f'. f' \<noteq> f \<longrightarrow>
             snd (createMessageHandler lib g io broker brokerIndex msg files) f' = files f')"
proof -
  have "snd (createMessageHandler lib g io broker brokerIndex msg files) f
          = \<lparr>on_storage = on_storage (files f) @ unsynced (files f)
                            @ file_line lib g io broker brokerIndex msg,
             unsynced = []\<rparr>"
    if "WriteString_result io (file_line lib g io broker brokerIndex msg)
          = (length (file_line lib g io broker brokerIndex msg), None)"
      and "Sync_result io = None"
    using that by (simp add: handler_files [OF assms] WriteString_def Sync_def)
  moreover have "snd (createMessageHandler lib g io broker brokerIndex msg files) f' = files f'"
    if "f' \<noteq> f" for f'
    using that by (simp add: handler_files [OF assms])
  ultimately show ?thesis
    by (simp add: handler_events)
qed

lemma example_file_line:
  "file_line lit_json example_globals io example_connection 0 example_message
     = ''['' @ Now_Format io ''2006-01-02 15:04:05.000'' @ ''] [Broker 1: a:1883] ''
       @ emoji_envelope @ '' x (2 bytes)'' @ [CHR 0x0A]"
proof -
  have "fmt_d (0 + 1) = ''1''" "fmt_d (length ''hi'') = ''2''"
    by code_simp+
  then show ?thesis
    by (simp add: file_line_def example_connection_def example_broker_def broker_addr_def
        example_message_def example_globals_def formatMessage_def)
qed

theorem file_sink_write_witness:
  "conn_OutputFile example_connection = Some 3
   \<and> Sync_result good_io = None
   \<and> snd (createMessageHandler lit_json example_globals good_io example_connection 0
            example_message empty_files) 3
       = \<lparr>on_storage = ''[2026-01-02 03:04:05.678] [Broker 1: a:1883] ''
                         @ emoji_envelope @ '' x (2 bytes)'' @ [CHR 0x0A],
          unsynced = []\<rparr>"
proof -
  have 1: "conn_OutputFile example_connection = Some 3"
    by (simp add: example_connection_def)
  have 2: "Sync_result good_io = None"
    "WriteString_result good_io s = (length s, None)"
    "Now_Format good_io layout = ''2026-01-02 03:04:05.678''" for s layout
    by (simp_all add: good_io_def)
  show ?thesis
    using file_sink_write [OF 1, of good_io lit_json example_globals 0 example_message
        empty_files] 1
    by (simp add: 2 example_file_line empty_files_def)
qed

text \<open>
  The statement of C5 itself fails: a failed write is swallowed. With a full disk
  (\<open>WriteString\<close> writes nothing and returns an error) nothing reaches the file, and the
  handler's only event is the console entry of the message at info level: no report of
  the failure.
\<close>

theorem file_sink_write_counterexample:
  "WriteString_result full_disk_io
      (file_line lit_json example_globals full_disk_io example_connection 0 example_message)
     = (0, Some ''no space left on device'')
   \<and> snd (createMessageHandler lit_json example_globals full_disk_io example_connection 0
            example_message empty_files) 3
       = \<lparr>on_storage = [], unsynced = []\<rparr>
   \<and> fst (createMessageHandler lit_json example_globals full_disk_io example_connection 0
            example_message empty_files)
       = [Log InfoLevel (''[Broker 1: a:1883] '' @ emoji_envelope @ '' x (2 bytes)'') []]"
proof -
  have 1: "conn_OutputFile example_connection = Some 3"
    by (simp add: example_connection_def)
  have 2: "Sync_result full_disk_io = None"
    "WriteString_result full_disk_io s = (0, Some ''no space left on device'')" for s
    by (simp_all add: full_disk_io_def good_io_def)
  have 3: "fmt_d (0 + 1) = ''1''" "fmt_d (length ''hi'') = ''2''"
    by code_simp+
  have "fst (createMessageHandler lit_json example_globals full_disk_io example_connection 0
            example_message empty_files)
       = [Log InfoLevel (''[Broker 1: a:1883] '' @ emoji_envelope @ '' x (2 bytes)'') []]"
    using 3
    by (simp add: handler_events Info_def example_globals_def example_connection_def
        example_broker_def broker_addr_def example_message_def formatMessage_def)
  moreover have "snd (createMessageHandler lit_json example_globals full_disk_io
            example_connection 0 example_message empty_files) 3
       = \<lparr>on_storage = [], unsynced = []\<rparr>"
    by (simp add: handler_files [OF 1] WriteString_def Sync_def 2 empty_files_def)
  ultimately show ?thesis
    by (simp add: 2)
qed

section \<open>Properties of configuration loading\<close>

lemma LoadConfig_unfold:
  "LoadConfig lib cw =
     (case ReadFile cw (getEnv (config_env lib cw) ''CONFIG_FILE'' ''config.json'') of
        Inr data \<Rightarrow>
          (case Unmarshal_Config cw data
                  \<lparr>Brokers = [],
                   Detailed = (getEnv (config_env lib cw) ''DETAILED'' ''false'' = ''true'')\<rparr> of
             (err, cfg') \<Rightarrow>
               if err = None \<and> Brokers cfg' \<noteq> []
               then validateAndNormalizeConfig lib cfg'
               else loadConfigFromEnv lib (config_env lib cw))
      | Inl err \<Rightarrow> loadConfigFromEnv lib (config_env lib cw))"
  by (simp add: LoadConfig_def config_env_def Let_def split: sum.splits prod.splits)

lemma example_env_config:
  "loadConfigFromEnv simple_lib example_env =
     \<lparr>Brokers =
        [\<lparr>Broker = ''h1'', Port = ''1883'', Username = '''', Password = '''',
          Topics = [''a'', ''b''], OutputFile = ''''\<rparr>,
         \<lparr>Broker = ''h2'', Port = ''8883'', Username = '''', Password = '''',
          Topics = [''#''], OutputFile = ''''\<rparr>],
      Detailed = False\<rparr>"
  by code_simp

text \<open>
  C9. Let \<open>env\<close> be the environment after the \<open>.env\<close> file, and let the configuration
  file be the one that \<open>CONFIG_FILE\<close> names (\<open>config.json\<close> by default). If the file is
  read, \<open>json.Unmarshal\<close> returns no error and the decoded configuration has at least
  one broker, \<open>LoadConfig\<close> returns the decoded configuration, normalised; its brokers are
  the file's brokers, one for one. In every other case (the file cannot be read; the
  decoder returns an error, whatever it has put into the configuration by then; no broker
  was decoded) \<open>LoadConfig\<close> returns what \<open>loadConfigFromEnv\<close> computes from \<open>env\<close> alone.
\<close>

theorem config_precedence:
  "let env = config_env lib cw;
       cfg0 = \<lparr>Brokers = [], Detailed = (getEnv env ''DETAILED'' ''false'' = ''true'')\<rparr>;
       configFile = getEnv env ''CONFIG_FILE'' ''config.json''
   in (\<forall>data cfg'.
         ReadFile cw configFile = Inr data
         \<and> Unmarshal_Config cw data cfg0 = (None, cfg') \<and> Brokers cfg' \<noteq> []
         \<longrightarrow> LoadConfig lib cw = validateAndNormalizeConfig lib cfg'
             \<and> Brokers (LoadConfig lib cw) = map (normalize_broker lib) (Brokers cfg'))
    \<and> ((\<exists>err. ReadFile cw configFile = Inl err)
        \<or> (\<exists>data err cfg'. ReadFile cw configFile = Inr data
              \<and> Unmarshal_Config cw data cfg0 = (Some err, cfg'))
        \<or> (\<exists>data cfg'. ReadFile cw configFile = Inr data
              \<and> Unmarshal_Config cw data cfg0 = (None, cfg') \<and> Brokers cfg' = [])
        \<longrightarrow> LoadConfig lib cw = loadConfigFromEnv lib env)"
proof -
  let ?env = "config_env lib cw"
  let ?cfg0 = "\<lparr>Brokers = [], Detailed = (getEnv ?env ''DETAILED'' ''false'' = ''true'')\<rparr>"
  let ?file = "getEnv ?env ''CONFIG_FILE'' ''config.json''"
  have json: "LoadConfig lib cw = validateAndNormalizeConfig lib cfg'
        \<and> Brokers (LoadConfig lib cw) = map (normalize_broker lib) (Brokers cfg')"
    if "ReadFile cw ?file = Inr data" "Unmarshal_Config cw data ?cfg0 = (None, cfg')"
      "Brokers cfg' \<noteq> []" for data cfg'
    using that by (simp add: LoadConfig_unfold validateAndNormalizeConfig_def)
  have unread: "LoadConfig lib cw = loadConfigFromEnv lib ?env"
    if "ReadFile cw ?file = Inl err" for err
    using that by (simp add: LoadConfig_unfold)
  have undecoded: "LoadConfig lib cw = loadConfigFromEnv lib ?env"
    if "ReadFile cw ?file = Inr data" "Unmarshal_Config cw data ?cfg0 = (Some err, cfg')"
    for data err cfg'
    using that by (simp add: LoadConfig_unfold)
  have no_broker: "LoadConfig lib cw = loadConfigFromEnv lib ?env"
    if "ReadFile cw ?file = Inr data" "Unmarshal_Config cw data ?cfg0 = (None, cfg')"
      "Brokers cfg' = []" for data cfg'
    using that by (simp add: LoadConfig_unfold)
  show ?thesis
    unfolding Let_def using json unread undecoded no_broker by blast
qed

theorem config_precedence_witness:
  "config_env simple_lib broken_file_world = example_env
   \<and> ReadFile broken_file_world ''config.json''
       = Inr ''{\"brokers\": [{\"broker\": \"j1\"}], \"detailed\": 3}''
   \<and> Unmarshal_Config broken_file_world
        ''{\"brokers\": [{\"broker\": \"j1\"}], \"detailed\": 3}''
        \<lparr>Brokers = [], Detailed = False\<rparr>
       = (Some ''cannot unmarshal number into Go struct field'',
          \<lparr>Brokers = [json_broker], Detailed = False\<rparr>)
   \<and> LoadConfig simple_lib broken_file_world = loadConfigFromEnv simple_lib example_env
   \<and> map Broker (Brokers (LoadConfig simple_lib broken_file_world)) = [''h1'', ''h2'']
   \<and> Unmarshal_Config good_file_world
        ''{\"brokers\": [{\"broker\": \"j1\"}], \"detailed\": 3}''
        \<lparr>Brokers = [], Detailed = False\<rparr>
       = (None, \<lparr>Brokers = [json_broker], Detailed = False\<rparr>)
   \<and> Brokers (LoadConfig simple_lib good_file_world) = [normalize_broker simple_lib json_broker]"
proof -
  have env: "config_env simple_lib broken_file_world = example_env"
    "config_env simple_lib good_file_world = example_env"
    by (simp_all add: config_env_def loadEnvFile_def broken_file_world_def good_file_world_def)
  have vars: "getEnv example_env ''CONFIG_FILE'' ''config.json'' = ''config.json''"
    "getEnv example_env ''DETAILED'' ''false'' = ''false''"
    by (simp_all add: getEnv_def Getenv_def example_env_def)
  have files: "ReadFile broken_file_world name
        = Inr ''{\"brokers\": [{\"broker\": \"j1\"}], \"detailed\": 3}''"
    "ReadFile good_file_world name
        = Inr ''{\"brokers\": [{\"broker\": \"j1\"}], \"detailed\": 3}''"
    "Unmarshal_Config broken_file_world data cfg
        = (Some ''cannot unmarshal number into Go struct field'', cfg\<lparr>Brokers := [json_broker]\<rparr>)"
    "Unmarshal_Config good_file_world data cfg = (None, cfg\<lparr>Brokers := [json_broker]\<rparr>)"
    for name data cfg
    by (simp_all add: broken_file_world_def good_file_world_def)
  have broken: "LoadConfig simple_lib broken_file_world = loadConfigFromEnv simple_lib example_env"
    using config_precedence [of simple_lib broken_file_world]
    by (simp add: Let_def env vars files)
  have good: "Brokers (LoadConfig simple_lib good_file_world)
      = [normalize_broker simple_lib json_broker]"
    using config_precedence [of simple_lib good_file_world]
    by (simp add: Let_def env vars files validateAndNormalizeConfig_def)
  from broken good show ?thesis
    by (simp add: env files example_env_config)
qed

lemma load_env_brokers_extends:
  "\<exists>more. load_env_brokers lib env brokerIndex brokers = brokers @ more"
proof (induction lib env brokerIndex brokers rule: load_env_brokers.induct)
  case (1 lib env brokerIndex brokers)
  show ?case
  proof (cases "getEnv env (broker_key brokerIndex ''HOST'') '''' = ''''")
    case True
    then show ?thesis
      by (simp add: load_env_brokers.simps [of lib env brokerIndex])
  next
    case False
    with "1.IH" obtain more where
      "load_env_brokers lib env (brokerIndex + 1) (brokers @ [env_broker lib env brokerIndex])
         = (brokers @ [env_broker lib env brokerIndex]) @ more"
      by blast
    with False show ?thesis
      by (simp add: load_env_brokers.simps [of lib env brokerIndex])
  qed
qed

lemma loadConfigFromEnv_nonempty: "Brokers (loadConfigFromEnv lib env) \<noteq> []"
  by (simp add: loadConfigFromEnv_def Let_def)

lemma loadConfigFromEnv_legacy:
  assumes "getEnv env ''BROKER_1_HOST'' '''' = ''''"
  shows "Brokers (loadConfigFromEnv lib env) = [legacy_broker lib env]"
proof -
  have "fmt_d 1 = ''1''"
    by code_simp
  then have "broker_key 1 ''HOST'' = ''BROKER_1_HOST''"
    by (simp add: broker_key_def)
  with assms have "load_env_brokers lib env 1 [] = []"
    by (subst load_env_brokers.simps) simp
  then show ?thesis
    by (simp add: loadConfigFromEnv_def)
qed

lemma getEnv_unset: "Getenv env key = '''' \<Longrightarrow> getEnv env key fallback = fallback"
  by (simp add: getEnv_def)

lemma subscribe_topics_no_fatal:
  "Log FatalLevel msg fs \<notin> set (subscribe_topics g w i j topics)"
  by (induction topics arbitrary: j) (auto simp: Info_def Error_def split: option.splits)

lemma start_broker_no_fatal:
  "Log FatalLevel msg fs \<notin> set (fst (start_broker g lib w i b))"
  by (auto simp: start_broker_def open_output_file_def Let_def Info_def Error_def
      subscribe_topics_no_fatal split: option.splits sum.splits prod.splits if_splits)

lemma loop_events_no_fatal:
  "Log FatalLevel msg fs \<notin> set (loop_events g lib w bs)"
  by (auto simp: loop_events_def start_broker_no_fatal)

lemma no_brokers_check_passed:
  assumes "Brokers cfg \<noteq> []"
  shows "Log FatalLevel (emoji_cross @ '' No brokers configured'') []
           \<notin> set (outcome_events (main_with lib w cfg))"
  using assms
  by (auto simp: main_with_cases Let_def main_banner_def loop_events_no_fatal)

text \<open>
  C10. \<open>loadConfigFromEnv\<close> returns, for every environment, a configuration with at
  least one broker. When \<open>BROKER_1_HOST\<close> is not set (or empty), the brokers are the one
  legacy broker; its host is \<open>localhost\<close> when \<open>MQTT_BROKER\<close> is not set, its port
  \<open>1883\<close> when \<open>MQTT_PORT\<close> is not set, and its topics are \<open>#\<close> alone when neither
  \<open>MQTT_TOPICS\<close> nor \<open>GATE_ID\<close> is set. With a configuration from the environment,
  \<open>main\<close> never logs the fatal entry of its check for an empty broker list.
\<close>

theorem env_config_has_broker:
  "Brokers (loadConfigFromEnv lib env) \<noteq> []
   \<and> (getEnv env ''BROKER_1_HOST'' '''' = ''''
        \<longrightarrow> Brokers (loadConfigFromEnv lib env) = [legacy_broker lib env])
   \<and> (Getenv env ''MQTT_BROKER'' = '''' \<longrightarrow> Broker (legacy_broker lib env) = ''localhost'')
   \<and> (Getenv env ''MQTT_PORT'' = '''' \<longrightarrow> Port (legacy_broker lib env) = ''1883'')
   \<and> (Getenv env ''MQTT_TOPICS'' = '''' \<and> Getenv env ''GATE_ID'' = ''''
        \<longrightarrow> Topics (legacy_broker lib env) = [''#''])
   \<and> Log FatalLevel (emoji_cross @ '' No brokers configured'') []
        \<notin> set (outcome_events (main_with lib' w (loadConfigFromEnv lib env)))"
proof -
  have "Broker (legacy_broker lib env) = ''localhost''" if "Getenv env ''MQTT_BROKER'' = ''''"
    using that by (simp add: legacy_broker_def Let_def getEnv_unset)
  moreover have "Port (legacy_broker lib env) = ''1883''" if "Getenv env ''MQTT_PORT'' = ''''"
    using that by (simp add: legacy_broker_def Let_def getEnv_unset)
  moreover have "Topics (legacy_broker lib env) = [''#'']"
    if "Getenv env ''MQTT_TOPICS'' = ''''" "Getenv env ''GATE_ID'' = ''''"
    using that by (simp add: legacy_broker_def Let_def getEnv_unset)
  ultimately show ?thesis
    using loadConfigFromEnv_nonempty [of lib env] loadConfigFromEnv_legacy [of env lib]
      no_brokers_check_passed [OF loadConfigFromEnv_nonempty, of lib' w lib env]
    by blast
qed

theorem env_config_has_broker_witness:
  "getEnv [] ''BROKER_1_HOST'' '''' = ''''
   \<and> Brokers (loadConfigFromEnv simple_lib [])
       = [\<lparr>Broker = ''localhost'', Port = ''1883'', Username = '''', Password = '''',
           Topics = [''#''], OutputFile = ''''\<rparr>]
   \<and> Brokers (loadConfigFromEnv simple_lib example_env) \<noteq> []"
proof -
  have unset: "Getenv [] key = ''''" "getEnv [] key fallback = fallback" for key fallback
    by (simp_all add: getEnv_def Getenv_def)
  have "legacy_broker simple_lib []
      = \<lparr>Broker = ''localhost'', Port = ''1883'', Username = '''', Password = '''',
         Topics = [''#''], OutputFile = ''''\<rparr>"
    by (simp add: legacy_broker_def unset)
  then show ?thesis
    using env_config_has_broker [of simple_lib "[]"]
      env_config_has_broker [of simple_lib example_env]
    by (simp add: unset)
qed

text \<open>
  The same holds for \<open>main\<close> as a whole: the configuration file is used only when it
  yields a broker, so \<open>LoadConfig\<close> never returns an empty broker list.
\<close>

lemma LoadConfig_nonempty: "Brokers (LoadConfig lib cw) \<noteq> []"
  by (simp add: LoadConfig_unfold validateAndNormalizeConfig_def loadConfigFromEnv_nonempty
      split: sum.splits prod.splits)

lemma main_brokers_check_never_fires:
  "Log FatalLevel (emoji_cross @ '' No brokers configured'') []
     \<notin> set (outcome_events (main lib cw w))"
  unfolding main_def by (rule no_brokers_check_passed) (rule LoadConfig_nonempty)

section \<open>Properties of concurrent handlers\<close>

lemma mutex_invariant_init: "mutex_invariant broker_of handlers_init"
  by (simp add: mutex_invariant_def handlers_init_def)

lemma mutex_invariant_inside:
  assumes "mutex_invariant broker_of s" and "in_locked_part (pcs s t)" and "in_locked_part p"
  shows "mutex_invariant broker_of (s\<lparr>pcs := (pcs s)(t := p)\<rparr>)"
proof -
  have same: "in_locked_part (((pcs s)(t := p)) u) = in_locked_part (pcs s u)" for u
    using assms(2,3) by simp
  show ?thesis
    using assms(1) unfolding mutex_invariant_def by (simp add: same del: fun_upd_apply)
qed

lemma mutex_invariant_lock:
  assumes inv: "mutex_invariant broker_of s" and free: "\<not> mu s (broker_of t)"
  shows "mutex_invariant broker_of
           (s\<lparr>pcs := (pcs s)(t := AtFormat), mu := (mu s)(broker_of t := True)\<rparr>)"
proof -
  let ?s = "s\<lparr>pcs := (pcs s)(t := AtFormat), mu := (mu s)(broker_of t := True)\<rparr>"
  have held: "mu s (broker_of u)" if "in_locked_part (pcs s u)" for u
    using inv that unfolding mutex_invariant_def by blast
  have alone: "u = u'"
    if "in_locked_part (pcs s u)" "in_locked_part (pcs s u')" "broker_of u = broker_of u'"
    for u u'
    using inv that unfolding mutex_invariant_def by blast
  have outside: "\<not> in_locked_part (pcs s u)" if "broker_of u = broker_of t" for u
    using held [of u] free that by auto
  have old: "in_locked_part (pcs s u)" if "in_locked_part (pcs ?s u)" "u \<noteq> t" for u
    using that by simp
  have 1: "mu ?s (broker_of u)" if "in_locked_part (pcs ?s u)" for u
  proof (cases "u = t")
    case True
    then show ?thesis by simp
  next
    case False
    with that have "mu s (broker_of u)"
      using held old by blast
    then show ?thesis by simp
  qed
  have 2: "u = u'"
    if u: "in_locked_part (pcs ?s u)" and u': "in_locked_part (pcs ?s u')"
      and eq: "broker_of u = broker_of u'" for u u'
  proof (cases "u = t")
    case True
    show ?thesis
    proof (rule ccontr)
      assume "u \<noteq> u'"
      with True have "u' \<noteq> t" by simp
      with u' have "in_locked_part (pcs s u')"
        by (rule old)
      moreover have "broker_of u' = broker_of t"
        using eq True by simp
      ultimately show False
        using outside by blast
    qed
  next
    case False
    with u have in_u: "in_locked_part (pcs s u)"
      by (rule old)
    then have "broker_of u \<noteq> broker_of t"
      using outside by blast
    with eq have "u' \<noteq> t"
      by auto
    with u' have "in_locked_part (pcs s u')"
      by (rule old)
    then show ?thesis
      using alone [OF in_u _ eq] by blast
  qed
  show ?thesis
    unfolding mutex_invariant_def using 1 2 by blast
qed

lemma mutex_invariant_unlock:
  assumes inv: "mutex_invariant broker_of s" and inside: "in_locked_part (pcs s t)"
  shows "mutex_invariant broker_of
           (s\<lparr>pcs := (pcs s)(t := Returned), mu := (mu s)(broker_of t := False)\<rparr>)"
proof -
  let ?s = "s\<lparr>pcs := (pcs s)(t := Returned), mu := (mu s)(broker_of t := False)\<rparr>"
  have held: "mu s (broker_of u)" if "in_locked_part (pcs s u)" for u
    using inv that unfolding mutex_invariant_def by blast
  have alone: "u = u'"
    if "in_locked_part (pcs s u)" "in_locked_part (pcs s u')" "broker_of u = broker_of u'"
    for u u'
    using inv that unfolding mutex_invariant_def by blast
  have old: "in_locked_part (pcs s u) \<and> u \<noteq> t" if "in_locked_part (pcs ?s u)" for u
    using that by (cases "u = t") simp_all
  have 1: "mu ?s (broker_of u)" if "in_locked_part (pcs ?s u)" for u
  proof -
    from that have u: "in_locked_part (pcs s u)" "u \<noteq> t"
      using old by blast+
    then have "broker_of u \<noteq> broker_of t"
      using alone [OF u(1) inside] by blast
    with held [OF u(1)] show ?thesis
      by simp
  qed
  have 2: "u = u'"
    if "in_locked_part (pcs ?s u)" "in_locked_part (pcs ?s u')" "broker_of u = broker_of u'"
    for u u'
    using that old alone by blast
  show ?thesis
    unfolding mutex_invariant_def using 1 2 by blast
qed

lemma mutex_invariant_step:
  assumes "mutex_invariant broker_of s"
  shows "mutex_invariant broker_of (handler_step broker_of s t)"
proof (cases "pcs s t")
  case AtLock
  with assms show ?thesis
    by (simp add: handler_step_def mutex_invariant_lock)
next
  case AtFormat
  with assms show ?thesis
    by (simp add: handler_step_def mutex_invariant_inside)
next
  case AtConsole
  with assms show ?thesis
    by (simp add: handler_step_def mutex_invariant_inside)
next
  case AtFile
  with assms show ?thesis
    by (simp add: handler_step_def mutex_invariant_inside)
next
  case AtUnlock
  with assms show ?thesis
    by (simp add: handler_step_def mutex_invariant_unlock)
next
  case Returned
  with assms show ?thesis
    by (simp add: handler_step_def)
qed

lemma mutex_invariant_foldl:
  "mutex_invariant broker_of s \<Longrightarrow>
   mutex_invariant broker_of (foldl (handler_step broker_of) s schedule)"
  by (induction schedule arbitrary: s) (simp_all add: mutex_invariant_step)

lemma mutex_invariant_run: "mutex_invariant broker_of (run_handlers broker_of schedule)"
  unfolding run_handlers_def by (rule mutex_invariant_foldl) (rule mutex_invariant_init)

text \<open>
  C6, as the code has it. The mutex is per connection: under every schedule, two
  different threads that run the handler of the same connection are never both in the
  locked part (formatting and writing one message), and a thread in the locked part
  holds the mutex of its connection. Nothing is said about threads of different
  connections.
\<close>

theorem handlers_same_session_exclusive:
  assumes "t \<noteq> t'" and "broker_of t = broker_of t'"
  shows "\<not> (in_locked_part (pcs (run_handlers broker_of schedule) t)
            \<and> in_locked_part (pcs (run_handlers broker_of schedule) t'))
       \<and> (in_locked_part (pcs (run_handlers broker_of schedule) t)
            \<longrightarrow> mu (run_handlers broker_of schedule) (broker_of t))"
proof -
  have inv: "mutex_invariant broker_of (run_handlers broker_of schedule)"
    by (rule mutex_invariant_run)
  then have "t = t'"
    if "in_locked_part (pcs (run_handlers broker_of schedule) t)"
      "in_locked_part (pcs (run_handlers broker_of schedule) t')"
    using that assms(2) unfolding mutex_invariant_def by blast
  with assms(1) have "\<not> (in_locked_part (pcs (run_handlers broker_of schedule) t)
            \<and> in_locked_part (pcs (run_handlers broker_of schedule) t'))"
    by blast
  moreover have "mu (run_handlers broker_of schedule) (broker_of t)"
    if "in_locked_part (pcs (run_handlers broker_of schedule) t)"
    using inv that unfolding mutex_invariant_def by blast
  ultimately show ?thesis
    by blast
qed

lemma run_handlers_snoc:
  "run_handlers broker_of (schedule @ [t])
     = handler_step broker_of (run_handlers broker_of schedule) t"
  by (simp add: run_handlers_def)

lemma run_same_connection:
  "pcs (run_handlers (\<lambda>t. t mod 2) [0, 2, 0, 2, 3]) 0 = AtConsole"
  "pcs (run_handlers (\<lambda>t. t mod 2) [0, 2, 0, 2, 3]) 3 = AtFormat"
  "pcs (run_handlers (\<lambda>t. t mod 2) [0, 2, 0, 2, 3]) 2 = AtLock"
  by (simp_all add: run_handlers_def handler_step_def handlers_init_def)

theorem handlers_same_session_exclusive_witness:
  "(0::nat) \<noteq> 2 \<and> (0::nat) mod 2 = 2 mod 2
   \<and> \<not> (in_locked_part (pcs (run_handlers (\<lambda>t. t mod 2) [0, 2, 0, 2, 3]) 0)
          \<and> in_locked_part (pcs (run_handlers (\<lambda>t. t mod 2) [0, 2, 0, 2, 3]) 2))
   \<and> in_locked_part (pcs (run_handlers (\<lambda>t. t mod 2) [0, 2, 0, 2, 3]) 0)
   \<and> mu (run_handlers (\<lambda>t. t mod 2) [0, 2, 0, 2, 3]) 0"
proof -
  have 1: "(0::nat) \<noteq> 2"
    by simp
  have 2: "(\<lambda>t::nat. t mod 2) 0 = (\<lambda>t. t mod 2) 2"
    by simp
  show ?thesis
    using handlers_same_session_exclusive [OF 1 2, of "[0, 2, 0, 2, 3]"]
    by (simp add: run_same_connection)
qed

text \<open>
  The statement of C6 itself, that handlers of two distinct sessions exclude one another
  over formatting and writing, fails: with one thread for connection \<open>0\<close> and one for
  connection \<open>1\<close>, after the schedule \<open>0, 1, 0, 1\<close> both threads are in the locked
  part, each about to hand its console line to the logger.
\<close>

theorem handlers_distinct_sessions_counterexample:
  "pcs (run_handlers (\<lambda>t. t) [0, 1, 0, 1]) 0 = AtConsole
   \<and> pcs (run_handlers (\<lambda>t. t) [0, 1, 0, 1]) 1 = AtConsole
   \<and> in_locked_part (pcs (run_handlers (\<lambda>t. t) [0, 1, 0, 1]) 0)
   \<and> in_locked_part (pcs (run_handlers (\<lambda>t. t) [0, 1, 0, 1]) 1)"
  by (simp add: run_handlers_def handler_step_def handlers_init_def)

end
